theory Spec2Isabelle
  imports Main "HOL-Library.Sublist"
begin

section \<open>The GAIL training example\<close>

text \<open>
  The verified program is \<^verbatim>\<open>reinforcement_learning/gail/gail_training_example.py\<close>:
  six network classes, five builder classes, an environment factory and the function
  \<^verbatim>\<open>train\<close>. The script calls three libraries (gym, nnabla, nnabla-rl). A call of a
  library function is modelled by what the script can observe of it: the object or the
  graph node it returns, the shape of that node, the parameters it registers, and the
  exception it raises. Numerical values of tensors are not modelled.
\<close>

subsection \<open>Exceptions and a state-and-exception monad\<close>

datatype error =
    AssertionError
  | IndexError
  | ValueError
  | RuntimeError
  | FileNotFoundError
  | UnpicklingError
  | GymError

text \<open>
  A statement of the script runs in a state and either returns a value or raises; the state
  survives the exception (a parameter registered before the exception stays registered).
\<close>

type_synonym ('s, 'a) prog = "'s \<Rightarrow> (error + 'a) \<times> 's"

definition py_return :: "'a \<Rightarrow> ('s, 'a) prog" where
  "py_return x st = (Inr x, st)"

definition py_raise :: "error \<Rightarrow> ('s, 'a) prog" where
  "py_raise e st = (Inl e, st)"

definition py_bind :: "('s, 'a) prog \<Rightarrow> ('a \<Rightarrow> ('s, 'b) prog) \<Rightarrow> ('s, 'b) prog" where
  "py_bind m f st = (case m st of (Inl e, st') \<Rightarrow> (Inl e, st') | (Inr x, st') \<Rightarrow> f x st')"

definition py_lift :: "error + 'a \<Rightarrow> ('s, 'a) prog" where
  "py_lift r st = (r, st)"

definition py_assert :: "bool \<Rightarrow> ('s, unit) prog" where
  "py_assert c = (if c then py_return () else py_raise AssertionError)"

subsection \<open>Floating-point literals\<close>

text \<open>
  The script only passes floating-point values on (initializer arguments, the factor
  \<^verbatim>\<open>2.0\<close>, learning rates). They are kept as the expressions the source writes.
\<close>

datatype float_expr = FloatLit string | NpSqrt float_expr

subsection \<open>nnabla: variables, functions, parameters\<close>

type_synonym path = "string list"

datatype initializer =
    UniformInitializerGlorot nat nat
  | ConstantInitializer float_expr
  | NormcInitializer float_expr
  | OrthogonalInitializer float_expr
  | GlorotUniform nat nat

datatype func =
    AffineF nat
  | ReLU
  | Tanh
  | ConcatenateF nat
  | ReshapeF "int list"
  | SplitF nat
  | MulScalar float_expr
  | BroadcastF "nat list"

text \<open>
  An \<^verbatim>\<open>nn.Variable\<close> is a node of the computation graph: an input with an identifier, a
  registered parameter, or the \<open>k\<close>-th output of a function applied to variables. Every
  node carries its shape.
\<close>

datatype variable =
    Input nat "nat list"
  | Param path "nat list" initializer
  | Apply func "variable list" nat "nat list"

fun shape :: "variable \<Rightarrow> nat list" where
  "shape (Input i shp) = shp"
| "shape (Param p shp ini) = shp"
| "shape (Apply f xs k shp) = shp"

text \<open>\<^verbatim>\<open>x.shape[i]\<close> for a non-negative \<open>i\<close>: a tuple index, IndexError out of range.\<close>

definition shape_at :: "variable \<Rightarrow> nat \<Rightarrow> error + nat" where
  "shape_at x i = (if i < length (shape x) then Inr (shape x ! i) else Inl IndexError)"

text \<open>The identifiers of the input nodes a graph reads, one entry per use.\<close>

fun inputs_of :: "variable \<Rightarrow> nat list" where
  "inputs_of (Input i shp) = [i]"
| "inputs_of (Param p shp ini) = []"
| "inputs_of (Apply f xs k shp) = concat (map inputs_of xs)"

text \<open>
  The registry of parameters (\<^verbatim>\<open>nn.get_parameters\<close>) in creation order, and the current
  parameter scope.
\<close>

record nn_state =
  cur_scope :: path
  parameters :: "(path \<times> nat list \<times> initializer) list"

text \<open>The pieces of a string between the occurrences of a character.\<close>

fun split_on :: "char \<Rightarrow> string \<Rightarrow> string list" where
  "split_on c [] = [[]]"
| "split_on c (x # xs) =
     (if x = c then [] # split_on c xs
      else (case split_on c xs of [] \<Rightarrow> [[x]] | w # ws \<Rightarrow> (x # w) # ws))"

text \<open>
  The scopes that a scope name opens: nnabla splits the name at \<^verbatim>\<open>/\<close> and enters one scope
  for every piece that is not empty (none for the empty name).
\<close>

definition scope_names :: "string \<Rightarrow> path" where
  "scope_names name = filter (\<lambda>n. n \<noteq> []) (split_on CHR ''/'' name)"

text \<open>\<^verbatim>\<open>with nn.parameter_scope(name): body\<close>. The scope is restored when the block is
  left, also by an exception.\<close>

definition parameter_scope :: "string \<Rightarrow> (nn_state, 'a) prog \<Rightarrow> (nn_state, 'a) prog" where
  "parameter_scope name body st =
     (case body (st\<lparr>cur_scope := cur_scope st @ scope_names name\<rparr>) of
        (r, st') \<Rightarrow> (r, st'\<lparr>cur_scope := cur_scope st\<rparr>))"

text \<open>
  \<^verbatim>\<open>nn.parameter.get_parameter_or_create(name, shape, initializer)\<close>: the parameter of that
  name in the current scope if there is one (ValueError when its shape differs), a new
  one otherwise.
\<close>

definition get_parameter_or_create ::
    "string \<Rightarrow> nat list \<Rightarrow> initializer \<Rightarrow> (nn_state, variable) prog" where
  "get_parameter_or_create name shp ini st =
     (let p = cur_scope st @ [name] in
      case map_of (parameters st) p of
        None \<Rightarrow> (Inr (Param p shp ini), st\<lparr>parameters := parameters st @ [(p, shp, ini)]\<rparr>)
      | Some (shp', ini') \<Rightarrow>
          if shp' = shp then (Inr (Param p shp' ini'), st) else (Inl ValueError, st))"

text \<open>\<^verbatim>\<open>F.affine(x, w, b, base_axis)\<close>: the dimensions of \<open>x\<close> from \<open>base_axis\<close> on are
  flattened and multiplied with \<open>w\<close>.\<close>

definition F_affine :: "variable \<Rightarrow> variable \<Rightarrow> variable \<Rightarrow> nat \<Rightarrow> error + variable" where
  "F_affine x w b base_axis =
     (if base_axis < length (shape x) \<and> 2 \<le> length (shape w)
         \<and> hd (shape w) = prod_list (drop base_axis (shape x)) \<and> shape b = tl (shape w)
      then Inr (Apply (AffineF base_axis) [x, w, b] 0 (take base_axis (shape x) @ tl (shape w)))
      else Inl RuntimeError)"

text \<open>
  \<^verbatim>\<open>PF.affine(inp, n_outmaps, name=..., w_init=...)\<close> with the default \<^verbatim>\<open>base_axis=1\<close>:
  inside the scope \<^verbatim>\<open>affine\<close>, which itself lies inside the scope \<open>name\<close> when a name is
  given, it registers the weight \<^verbatim>\<open>W\<close> and the bias \<^verbatim>\<open>b\<close>, then applies \<^verbatim>\<open>F.affine\<close>.
\<close>

definition PF_affine ::
    "variable \<Rightarrow> nat \<Rightarrow> string option \<Rightarrow> initializer option \<Rightarrow> (nn_state, variable) prog" where
  "PF_affine inp n_outmaps name w_init =
     (let inmaps = prod_list (drop 1 (shape inp));
          func =
            parameter_scope ''affine''
              (py_bind (get_parameter_or_create ''W'' [inmaps, n_outmaps]
                          (case w_init of None \<Rightarrow> UniformInitializerGlorot inmaps n_outmaps
                                        | Some i \<Rightarrow> i)) (\<lambda>w.
               py_bind (get_parameter_or_create ''b'' [n_outmaps]
                          (ConstantInitializer (FloatLit ''0''))) (\<lambda>b.
               py_lift (F_affine inp w b 1))))
      in case name of None \<Rightarrow> func | Some n \<Rightarrow> parameter_scope n func)"

definition F_relu :: "variable \<Rightarrow> variable" where
  "F_relu x = Apply ReLU [x] 0 (shape x)"

definition F_tanh :: "variable \<Rightarrow> variable" where
  "F_tanh x = Apply Tanh [x] 0 (shape x)"

text \<open>\<^verbatim>\<open>x * c\<close> for a Python float \<open>c\<close>.\<close>

definition F_mul_scalar :: "variable \<Rightarrow> float_expr \<Rightarrow> variable" where
  "F_mul_scalar x c = Apply (MulScalar c) [x] 0 (shape x)"

text \<open>\<^verbatim>\<open>F.concatenate(x, y, axis=axis)\<close>: the shapes agree except along \<open>axis\<close>.\<close>

definition F_concatenate :: "variable \<Rightarrow> variable \<Rightarrow> nat \<Rightarrow> error + variable" where
  "F_concatenate x y axis =
     (if axis < length (shape x) \<and> length (shape y) = length (shape x)
         \<and> (shape y)[axis := 0] = (shape x)[axis := 0]
      then Inr (Apply (ConcatenateF axis) [x, y] 0
                  ((shape x)[axis := shape x ! axis + shape y ! axis]))
      else Inl RuntimeError)"

text \<open>\<^verbatim>\<open>F.reshape(x, shape=(-1, d1, ..., dn))\<close>: the first dimension is inferred.\<close>

definition F_reshape_infer :: "variable \<Rightarrow> nat list \<Rightarrow> error + variable" where
  "F_reshape_infer x ds =
     (let total = prod_list (shape x); rest = prod_list ds in
      if rest \<noteq> 0 \<and> total mod rest = 0
      then Inr (Apply (ReshapeF (-1 # map int ds)) [x] 0 ((total div rest) # ds))
      else Inl RuntimeError)"

text \<open>\<^verbatim>\<open>F.split(x, axis=axis)\<close>: one output per index along \<open>axis\<close>, that axis removed.\<close>

definition F_split :: "variable \<Rightarrow> nat \<Rightarrow> error + variable list" where
  "F_split x axis =
     (if axis < length (shape x)
      then Inr (map (\<lambda>k. Apply (SplitF axis) [x] k (take axis (shape x) @ drop (Suc axis) (shape x)))
                  [0 ..< shape x ! axis])
      else Inl RuntimeError)"

text \<open>Tuple unpacking \<^verbatim>\<open>a, b = xs\<close>.\<close>

definition unpack2 :: "'a list \<Rightarrow> error + ('a \<times> 'a)" where
  "unpack2 xs = (case xs of [a, b] \<Rightarrow> Inr (a, b) | _ \<Rightarrow> Inl ValueError)"

text \<open>\<^verbatim>\<open>F.broadcast(x, shape)\<close>: every dimension of \<open>x\<close> is 1 or the target's.\<close>

definition F_broadcast :: "variable \<Rightarrow> nat list \<Rightarrow> error + variable" where
  "F_broadcast x shp =
     (if list_all2 (\<lambda>d t. d = t \<or> d = 1) (shape x) shp
      then Inr (Apply (BroadcastF shp) [x] 0 shp)
      else Inl RuntimeError)"

text \<open>\<^verbatim>\<open>nnabla_rl.distributions.Gaussian(mean, ln_var)\<close>.\<close>

datatype distribution = Gaussian (mean: variable) (ln_var: variable)

subsection \<open>The network classes\<close>

text \<open>
  Each forward method takes the object's \<^verbatim>\<open>scope_name\<close> (and \<^verbatim>\<open>_action_dim\<close>). The action
  dimension is a number, the \<^verbatim>\<open>env_info.action_dim\<close> the builder passes; the annotation
  \<^verbatim>\<open>str\<close> in the constructor of ExampleMujocoPolicy is not checked by Python.
\<close>

definition ExampleClassicControlVFunction_v ::
    "string \<Rightarrow> variable \<Rightarrow> (nn_state, variable) prog" where
  "ExampleClassicControlVFunction_v scope_name s =
     parameter_scope scope_name
       (py_bind (parameter_scope ''affine1''
                   (py_bind (PF_affine s 64 None None) (\<lambda>h.
                    py_return (F_relu h)))) (\<lambda>h.
        py_bind (parameter_scope ''affine2''
                   (py_bind (PF_affine h 64 None None) (\<lambda>h.
                    py_return (F_relu h)))) (\<lambda>h.
        parameter_scope ''affine3'' (PF_affine h 1 None None))))"

definition ExampleMujocoVFunction_v ::
    "string \<Rightarrow> variable \<Rightarrow> (nn_state, variable) prog" where
  "ExampleMujocoVFunction_v scope_name s =
     parameter_scope scope_name
       (py_bind (PF_affine s 100 (Some ''linear1'')
                   (Some (NormcInitializer (FloatLit ''1.0'')))) (\<lambda>h.
        py_bind (py_return (F_tanh h)) (\<lambda>h.
        py_bind (PF_affine h 100 (Some ''linear2'')
                   (Some (NormcInitializer (FloatLit ''1.0'')))) (\<lambda>h.
        py_bind (py_return (F_tanh h)) (\<lambda>h.
        PF_affine h 1 (Some ''linear3'') (Some (NormcInitializer (FloatLit ''1.0''))))))))"

definition ExampleClassicControlPolicy_pi ::
    "string \<Rightarrow> nat \<Rightarrow> variable \<Rightarrow> (nn_state, distribution) prog" where
  "ExampleClassicControlPolicy_pi scope_name action_dim s =
     py_bind
       (parameter_scope scope_name
          (py_bind (parameter_scope ''affine1''
                      (py_bind (PF_affine s 64 None
                                  (Some (OrthogonalInitializer (NpSqrt (FloatLit ''2.0''))))) (\<lambda>h.
                       py_return (F_relu h)))) (\<lambda>h.
           py_bind (parameter_scope ''affine2''
                      (py_bind (PF_affine h 64 None
                                  (Some (OrthogonalInitializer (NpSqrt (FloatLit ''2.0''))))) (\<lambda>h.
                       py_return (F_relu h)))) (\<lambda>h.
           py_bind (parameter_scope ''affine3''
                      (PF_affine h (action_dim * 2) None
                         (Some (OrthogonalInitializer (NpSqrt (FloatLit ''0.01'')))))) (\<lambda>h.
           py_bind (py_lift (F_reshape_infer h [2, action_dim])) (\<lambda>reshaped.
           py_bind (py_lift (F_split reshaped 1)) (\<lambda>outs.
           py_bind (py_lift (unpack2 outs)) (\<lambda>(mean, ln_sigma).
           py_return (mean, F_mul_scalar ln_sigma (FloatLit ''2.0''))))))))))
       (\<lambda>(mean, ln_var). py_return (Gaussian mean ln_var))"

definition ExampleMujocoPolicy_pi ::
    "string \<Rightarrow> nat \<Rightarrow> variable \<Rightarrow> (nn_state, distribution) prog" where
  "ExampleMujocoPolicy_pi scope_name action_dim s =
     py_bind
       (parameter_scope scope_name
          (py_bind (PF_affine s 100 (Some ''linear1'')
                      (Some (NormcInitializer (FloatLit ''1.0'')))) (\<lambda>h.
           py_bind (py_return (F_tanh h)) (\<lambda>h.
           py_bind (PF_affine h 100 (Some ''linear2'')
                      (Some (NormcInitializer (FloatLit ''1.0'')))) (\<lambda>h.
           py_bind (py_return (F_tanh h)) (\<lambda>h.
           py_bind (PF_affine h action_dim (Some ''linear3'')
                      (Some (NormcInitializer (FloatLit ''0.01'')))) (\<lambda>mean.
           py_bind (py_lift (shape_at s 0)) (\<lambda>batch.
           py_bind (py_assert (shape mean = [batch, action_dim])) (\<lambda>_.
           py_bind (get_parameter_or_create ''ln_sigma'' [1, action_dim]
                      (ConstantInitializer (FloatLit ''0.0''))) (\<lambda>ln_sigma.
           py_bind (py_lift (shape_at s 0)) (\<lambda>batch.
           py_bind (py_lift (F_broadcast ln_sigma [batch, action_dim])) (\<lambda>bc.
           py_return (mean, F_mul_scalar bc (FloatLit ''2.0''))))))))))))))
       (\<lambda>(mean, ln_var). py_return (Gaussian mean ln_var))"

text \<open>
  The discriminators concatenate state and action before they enter the scope; the
  argument \<open>s_next\<close> is not read. The initializer's argument \<^verbatim>\<open>h.shape[1]\<close> is evaluated
  before the layer is called.
\<close>

definition ExampleClassicDiscriminator_r ::
    "string \<Rightarrow> variable \<Rightarrow> variable \<Rightarrow> variable \<Rightarrow> (nn_state, variable) prog" where
  "ExampleClassicDiscriminator_r scope_name s_current a_current s_next =
     py_bind (py_lift (F_concatenate s_current a_current 1)) (\<lambda>h.
     parameter_scope scope_name
       (py_bind (py_lift (shape_at h 1)) (\<lambda>d.
        py_bind (PF_affine h 64 (Some ''linear1'') (Some (GlorotUniform d 64))) (\<lambda>h.
        py_bind (py_return (F_tanh h)) (\<lambda>h.
        py_bind (py_lift (shape_at h 1)) (\<lambda>d.
        py_bind (PF_affine h 64 (Some ''linear2'') (Some (GlorotUniform d 64))) (\<lambda>h.
        py_bind (py_return (F_tanh h)) (\<lambda>h.
        py_bind (py_lift (shape_at h 1)) (\<lambda>d.
        PF_affine h 1 (Some ''linear3'') (Some (GlorotUniform d 1)))))))))))"

definition ExampleMujocoDiscriminator_r ::
    "string \<Rightarrow> variable \<Rightarrow> variable \<Rightarrow> variable \<Rightarrow> (nn_state, variable) prog" where
  "ExampleMujocoDiscriminator_r scope_name s_current a_current s_next =
     py_bind (py_lift (F_concatenate s_current a_current 1)) (\<lambda>h.
     parameter_scope scope_name
       (py_bind (py_lift (shape_at h 1)) (\<lambda>d.
        py_bind (PF_affine h 100 (Some ''linear1'') (Some (GlorotUniform d 100))) (\<lambda>h.
        py_bind (py_return (F_tanh h)) (\<lambda>h.
        py_bind (py_lift (shape_at h 1)) (\<lambda>d.
        py_bind (PF_affine h 100 (Some ''linear2'') (Some (GlorotUniform d 100))) (\<lambda>h.
        py_bind (py_return (F_tanh h)) (\<lambda>h.
        py_bind (py_lift (shape_at h 1)) (\<lambda>d.
        PF_affine h 1 (Some ''linear3'') (Some (GlorotUniform d 1)))))))))))"

subsection \<open>Observations on graphs and parameter registries\<close>

text \<open>
  \<^verbatim>\<open>get_parameter_or_create\<close> accepts the path \<open>p\<close> with the shape \<open>shp\<close>: nothing is
  registered there, or a parameter of that shape.
\<close>

definition compatible :: "nn_state \<Rightarrow> path \<Rightarrow> nat list \<Rightarrow> bool" where
  "compatible st p shp =
     (case map_of (parameters st) p of None \<Rightarrow> True | Some (shp', ini') \<Rightarrow> shp' = shp)"

text \<open>The initializer of the parameter at \<open>p\<close> once it was asked for with \<open>ini\<close>.\<close>

definition init_at :: "nn_state \<Rightarrow> path \<Rightarrow> initializer \<Rightarrow> initializer" where
  "init_at st p ini =
     (case map_of (parameters st) p of None \<Rightarrow> ini | Some (shp', ini') \<Rightarrow> ini')"

text \<open>The registry once the parameter at \<open>p\<close> was asked for.\<close>

definition register :: "path \<Rightarrow> nat list \<Rightarrow> initializer \<Rightarrow> nn_state \<Rightarrow> nn_state" where
  "register p shp ini st =
     (case map_of (parameters st) p of
        None \<Rightarrow> st\<lparr>parameters := parameters st @ [(p, shp, ini)]\<rparr>
      | Some e \<Rightarrow> st)"

text \<open>
  An affine layer in the scope \<open>p\<close>, from \<open>inmaps\<close> to \<open>n\<close> features: the registry accepts
  its weight and bias, and the registry after the layer was called with the weight
  initializer \<open>iw\<close>.
\<close>

definition layer_compatible :: "nn_state \<Rightarrow> path \<Rightarrow> nat \<Rightarrow> nat \<Rightarrow> bool" where
  "layer_compatible st p inmaps n =
     (compatible st (p @ [''W'']) [inmaps, n] \<and> compatible st (p @ [''b'']) [n])"

definition register_layer :: "path \<Rightarrow> nat \<Rightarrow> nat \<Rightarrow> initializer \<Rightarrow> nn_state \<Rightarrow> nn_state" where
  "register_layer p inmaps n iw st =
     register (p @ [''b'']) [n] (ConstantInitializer (FloatLit ''0''))
       (register (p @ [''W'']) [inmaps, n] iw st)"

text \<open>
  The node \<open>affine(x, n)\<close>: \<^verbatim>\<open>F.affine\<close> with base axis 1 applied to \<open>x\<close>, to the weight at
  \<open>p/W\<close> of shape (features of \<open>x\<close>, \<open>n\<close>) and to the bias at \<open>p/b\<close> of shape (\<open>n\<close>), with
  the initializers \<open>iw\<close> and \<open>ib\<close> they were registered with.
\<close>

definition affine_node ::
    "path \<Rightarrow> variable \<Rightarrow> nat \<Rightarrow> initializer \<Rightarrow> initializer \<Rightarrow> variable" where
  "affine_node p x n iw ib =
     Apply (AffineF 1)
       [x, Param (p @ [''W'']) [prod_list (drop 1 (shape x)), n] iw, Param (p @ [''b'']) [n] ib]
       0 [hd (shape x), n]"

text \<open>The same node in the state \<open>st\<close>, when the layer is called with the initializer \<open>iw\<close>.\<close>

definition affine_in :: "nn_state \<Rightarrow> path \<Rightarrow> variable \<Rightarrow> nat \<Rightarrow> initializer \<Rightarrow> variable" where
  "affine_in st p x n iw =
     affine_node p x n (init_at st (p @ [''W'']) iw)
       (init_at st (p @ [''b'']) (ConstantInitializer (FloatLit ''0'')))"

text \<open>
  What a forward pass \<open>m\<close> registers when it starts in \<open>st\<close>: the registry only grows at its
  end, so the new entries are those past the old length.
\<close>

definition created :: "(nn_state, 'a) prog \<Rightarrow> nn_state \<Rightarrow> (path \<times> nat list \<times> initializer) list" where
  "created m st = drop (length (parameters st)) (parameters (snd (m st)))"

text \<open>
  \<open>m\<close> keeps the registered parameters and the current scope, and every parameter it
  registers lies in the scope \<open>q\<close>, relative to the scope it is called in.
\<close>

definition creates_in_scope :: "path \<Rightarrow> (nn_state, 'a) prog \<Rightarrow> nn_state \<Rightarrow> bool" where
  "creates_in_scope q m st =
     (cur_scope (snd (m st)) = cur_scope st
      \<and> take (length (parameters st)) (parameters (snd (m st))) = parameters st
      \<and> list_all (\<lambda>e. prefix (cur_scope st @ q) (fst e)) (created m st))"

text \<open>
  The layers of a graph along its data path (the first input of every function), oldest
  first: the function and the width (last dimension) of its output.
\<close>

fun layers :: "variable \<Rightarrow> (func \<times> nat) list" where
  "layers (Input i shp) = []"
| "layers (Param p shp ini) = []"
| "layers (Apply f xs k shp) = (case xs of [] \<Rightarrow> [] | x # _ \<Rightarrow> layers x) @ [(f, last shp)]"

text \<open>
  Three affine layers of the widths \<open>w\<close>, \<open>w\<close> and \<open>out\<close>, with the activation \<open>act\<close> after
  the first two.
\<close>

definition three_layers :: "func \<Rightarrow> nat \<Rightarrow> nat \<Rightarrow> (func \<times> nat) list" where
  "three_layers act w out =
     [(AffineF 1, w), (act, w), (AffineF 1, w), (act, w), (AffineF 1, out)]"

subsection \<open>The builders\<close>

datatype model =
    ExampleClassicControlVFunction string
  | ExampleMujocoVFunction string
  | ExampleClassicControlPolicy string nat
  | ExampleMujocoPolicy string nat
  | ExampleClassicDiscriminator string
  | ExampleMujocoDiscriminator string

text \<open>Of the library's \<^verbatim>\<open>EnvironmentInfo\<close> the script reads \<^verbatim>\<open>action_dim\<close> only.\<close>

record env_info =
  action_dim :: nat

text \<open>
  \<^verbatim>\<open>GAILConfig\<close>: the fields the script sets and the two it reads. The other fields, and the
  defaults of the two learning rates, belong to the library.
\<close>

record gail_config =
  gpu_id :: int
  pi_batch_size :: nat
  num_steps_per_iteration :: nat
  discriminator_batch_size :: nat
  vf_learning_rate :: float_expr
  discriminator_learning_rate :: float_expr

datatype solver = Adam (alpha: float_expr)

text \<open>A builder object is its class and, for the model builders, its \<^verbatim>\<open>_is_mujoco\<close>.\<close>

datatype model_builder =
    ExamplePolicyBuilder bool
  | ExampleVFunctionBuilder bool
  | ExampleRewardFunctionBuilder bool

datatype solver_builder =
    ExampleVSolverBuilder
  | ExampleRewardFunctionSolverBuilder

fun build_model :: "model_builder \<Rightarrow> string \<Rightarrow> env_info \<Rightarrow> gail_config \<Rightarrow> model" where
  "build_model (ExamplePolicyBuilder is_mujoco) scope_name env_info algorithm_config =
     (if is_mujoco then ExampleMujocoPolicy scope_name (action_dim env_info)
      else ExampleClassicControlPolicy scope_name (action_dim env_info))"
| "build_model (ExampleVFunctionBuilder is_mujoco) scope_name env_info algorithm_config =
     (if is_mujoco then ExampleMujocoVFunction scope_name
      else ExampleClassicControlVFunction scope_name)"
| "build_model (ExampleRewardFunctionBuilder is_mujoco) scope_name env_info algorithm_config =
     (if is_mujoco then ExampleMujocoDiscriminator scope_name
      else ExampleClassicDiscriminator scope_name)"

fun build_solver :: "solver_builder \<Rightarrow> env_info \<Rightarrow> gail_config \<Rightarrow> solver" where
  "build_solver ExampleVSolverBuilder env_info algorithm_config =
     (let config = algorithm_config in Adam (vf_learning_rate config))"
| "build_solver ExampleRewardFunctionSolverBuilder env_info algorithm_config =
     (let config = algorithm_config in Adam (discriminator_learning_rate config))"

text \<open>
  The \<^verbatim>\<open>class\<close> statements of the module in source order, each with its base class.
\<close>

datatype base_class = VFunction | StochasticPolicy | RewardFunction | ModelBuilder | SolverBuilder

definition class_statements :: "(string \<times> base_class) list" where
  "class_statements =
     [(''ExampleClassicControlVFunction'', VFunction),
      (''ExampleMujocoVFunction'', VFunction),
      (''ExampleClassicControlPolicy'', StochasticPolicy),
      (''ExampleMujocoPolicy'', StochasticPolicy),
      (''ExampleClassicDiscriminator'', RewardFunction),
      (''ExampleMujocoDiscriminator'', RewardFunction),
      (''ExamplePolicyBuilder'', ModelBuilder),
      (''ExampleVFunctionBuilder'', ModelBuilder),
      (''ExampleVSolverBuilder'', SolverBuilder),
      (''ExampleRewardFunctionBuilder'', ModelBuilder),
      (''ExampleRewardFunctionSolverBuilder'', SolverBuilder)]"

definition subclasses_of :: "base_class \<Rightarrow> string list" where
  "subclasses_of b = map fst (filter (\<lambda>c. snd c = b) class_statements)"

definition builder_classes :: "string list" where
  "builder_classes =
     map fst (filter (\<lambda>c. snd c = ModelBuilder \<or> snd c = SolverBuilder) class_statements)"

subsection \<open>The environment factory\<close>

text \<open>
  What \<^verbatim>\<open>train\<close> depends on outside the script: which environment names gym knows, the
  files and what \<^verbatim>\<open>pickle.load\<close> makes of their contents, and the library's default
  \<^verbatim>\<open>GAILConfig\<close>.
\<close>

record 'b world =
  gym_registered :: "string \<Rightarrow> bool"
  files :: "string \<rightharpoonup> string"
  pickle_loads :: "string \<rightharpoonup> 'b"
  config_defaults :: gail_config

text \<open>
  An environment object: what \<^verbatim>\<open>gym.make\<close> returned, under the wrappers put around it.
  The number tells the objects of different \<^verbatim>\<open>gym.make\<close> calls apart.
\<close>

datatype env = GymEnv nat string | NumpyFloat32Env env | ScreenRenderEnv env

datatype writer = FileWriter string string

datatype evaluator = EpisodicEvaluator nat

datatype hook =
    EvaluationHook env evaluator nat "writer option"
  | IterationNumHook nat
  | SaveSnapshotHook string nat

text \<open>The algorithm object, as the arguments of its constructor.\<close>

record 'b gail =
  gail_env :: env
  gail_buffer :: 'b
  gail_config :: gail_config
  policy_builder :: model_builder
  v_function_builder :: model_builder
  v_solver_builder :: solver_builder
  reward_function_builder :: model_builder
  reward_solver_builder :: solver_builder

text \<open>
  The state of the script is the trace of its library calls, oldest first. A constructor
  call is recorded with the object it made.
\<close>

datatype 'b event =
    Call_gym_make string
  | New_NumpyFloat32Env env
  | New_ScreenRenderEnv env
  | Call_open string string
  | Call_pickle_load
  | Call_close
  | New_FileWriter writer
  | New_EpisodicEvaluator evaluator
  | New_Hook hook
  | New_GAILConfig gail_config
  | New_GAIL "'b gail"
  | Call_set_hooks "'b gail" "hook list"
  | Call_train "'b gail" env nat

definition emit :: "'b event \<Rightarrow> ('b event list, unit) prog" where
  "emit e tr = (Inr (), tr @ [e])"

text \<open>A constructor of the library: the call is recorded and the object returned.\<close>

definition construct :: "'a \<Rightarrow> ('a \<Rightarrow> 'b event) \<Rightarrow> ('b event list, 'a) prog" where
  "construct obj ev = py_bind (emit (ev obj)) (\<lambda>_. py_return obj)"

definition gym_make :: "'b world \<Rightarrow> string \<Rightarrow> ('b event list, env) prog" where
  "gym_make w env_name tr =
     (if gym_registered w env_name
      then (Inr (GymEnv (length tr) env_name), tr @ [Call_gym_make env_name])
      else (Inl GymError, tr @ [Call_gym_make env_name]))"

definition build_classic_control_env ::
    "'b world \<Rightarrow> string \<Rightarrow> bool \<Rightarrow> ('b event list, env) prog" where
  "build_classic_control_env w env_name render =
     py_bind (gym_make w env_name) (\<lambda>env.
     py_bind (construct (NumpyFloat32Env env) New_NumpyFloat32Env) (\<lambda>env.
     py_bind (if render then construct (ScreenRenderEnv env) New_ScreenRenderEnv
              else py_return env) (\<lambda>env.
     py_return env)))"

subsection \<open>The function train\<close>

text \<open>\<^verbatim>\<open>with open(path, mode=mode) as f: body\<close> for a mode that reads: the file is closed
  when the block is left, also by an exception.\<close>

definition with_open ::
    "'b world \<Rightarrow> string \<Rightarrow> string \<Rightarrow> (string \<Rightarrow> ('b event list, 'a) prog)
       \<Rightarrow> ('b event list, 'a) prog" where
  "with_open w path mode body =
     py_bind (emit (Call_open path mode)) (\<lambda>_.
     case files w path of
       None \<Rightarrow> py_raise FileNotFoundError
     | Some f \<Rightarrow> (\<lambda>tr. case body f tr of (r, tr') \<Rightarrow> (r, tr' @ [Call_close])))"

definition pickle_load :: "'b world \<Rightarrow> string \<Rightarrow> ('b event list, 'b) prog" where
  "pickle_load w f =
     py_bind (emit Call_pickle_load) (\<lambda>_.
     case pickle_loads w f of None \<Rightarrow> py_raise UnpicklingError | Some b \<Rightarrow> py_return b)"

text \<open>\<^verbatim>\<open>GAILConfig(gpu_id=..., pi_batch_size=..., ...)\<close>: the defaults with the keyword
  arguments put in.\<close>

definition new_GAILConfig ::
    "'b world \<Rightarrow> int \<Rightarrow> nat \<Rightarrow> nat \<Rightarrow> nat \<Rightarrow> ('b event list, gail_config) prog" where
  "new_GAILConfig w gpu pi_bs steps disc_bs =
     construct ((config_defaults w)\<lparr>gpu_id := gpu, pi_batch_size := pi_bs,
                  num_steps_per_iteration := steps, discriminator_batch_size := disc_bs\<rparr>)
       New_GAILConfig"

text \<open>
  The model ends with the call of \<^verbatim>\<open>gail.train\<close>: what the library's loop does after it
  was called is not the script's.
\<close>

definition train :: "'b world \<Rightarrow> ('b event list, unit) prog" where
  "train w =
     (let env_name = ''Pendulum-v1'' in
      py_bind (build_classic_control_env w env_name False) (\<lambda>train_env.
      py_bind (with_open w ''./pendulum_v1_expert_buffer.pkl'' ''rb'' (\<lambda>f. pickle_load w f))
        (\<lambda>expert_buffer.
      py_bind (build_classic_control_env w env_name True) (\<lambda>eval_env.
      let evaluation_timing = 10000;
          total_iterations = 1000000;
          pi_batch_size = 10000;
          discriminator_batch_size = 10000;
          num_steps_per_iteration = 10000;
          is_mujoco = False;
          outdir = env_name @ ''_results'' in
      py_bind (construct (FileWriter outdir ''evaluation_result'') New_FileWriter) (\<lambda>writer.
      py_bind (construct (EpisodicEvaluator 5) New_EpisodicEvaluator) (\<lambda>evaluator.
      py_bind (construct (EvaluationHook eval_env evaluator evaluation_timing (Some writer))
                 New_Hook) (\<lambda>evaluation_hook.
      py_bind (construct (IterationNumHook 100) New_Hook) (\<lambda>iteration_num_hook.
      py_bind (construct (SaveSnapshotHook outdir evaluation_timing) New_Hook)
        (\<lambda>save_snapshot_hook.
      let gpu_id = 0 in
      py_bind (new_GAILConfig w gpu_id pi_batch_size num_steps_per_iteration
                 discriminator_batch_size) (\<lambda>config.
      py_bind (construct
                 \<lparr>gail_env = train_env, gail_buffer = expert_buffer, gail_config = config,
                  policy_builder = ExamplePolicyBuilder is_mujoco,
                  v_function_builder = ExampleVFunctionBuilder is_mujoco,
                  v_solver_builder = ExampleVSolverBuilder,
                  reward_function_builder = ExampleRewardFunctionBuilder is_mujoco,
                  reward_solver_builder = ExampleRewardFunctionSolverBuilder\<rparr>
                 New_GAIL) (\<lambda>gail.
      py_bind (emit (Call_set_hooks gail
                 [evaluation_hook, iteration_num_hook, save_snapshot_hook])) (\<lambda>_.
      emit (Call_train gail train_env total_iterations)))))))))))))"

text \<open>\<^verbatim>\<open>if __name__ == "__main__": train()\<close>: the script starts with no call made.\<close>

definition main :: "'b world \<Rightarrow> (error + unit) \<times> 'b event list" where
  "main w = train w []"

subsection \<open>Observations on traces\<close>

fun is_open :: "'b event \<Rightarrow> bool" where
  "is_open (Call_open path mode) = True"
| "is_open _ = False"

fun is_pickle_load :: "'b event \<Rightarrow> bool" where
  "is_pickle_load Call_pickle_load = True"
| "is_pickle_load _ = False"

fun is_new_GAIL :: "'b event \<Rightarrow> bool" where
  "is_new_GAIL (New_GAIL g) = True"
| "is_new_GAIL _ = False"

fun is_set_hooks :: "'b event \<Rightarrow> bool" where
  "is_set_hooks (Call_set_hooks g hs) = True"
| "is_set_hooks _ = False"

fun is_train :: "'b event \<Rightarrow> bool" where
  "is_train (Call_train g e n) = True"
| "is_train _ = False"

text \<open>An algorithm object, a hook or a configuration is made.\<close>

fun makes_algorithm_part :: "'b event \<Rightarrow> bool" where
  "makes_algorithm_part (New_GAIL g) = True"
| "makes_algorithm_part (New_Hook h) = True"
| "makes_algorithm_part (New_GAILConfig c) = True"
| "makes_algorithm_part _ = False"

text \<open>The place of the first event with \<open>P\<close> in a trace (its length if there is none).\<close>

definition first_at :: "('e \<Rightarrow> bool) \<Rightarrow> 'e list \<Rightarrow> nat" where
  "first_at P tr = length (takeWhile (\<lambda>e. \<not> P e) tr)"

fun config_of :: "'b event \<Rightarrow> gail_config option" where
  "config_of (New_GAILConfig c) = Some c"
| "config_of _ = None"

fun set_hooks_call_of :: "'b event \<Rightarrow> ('b gail \<times> hook list) option" where
  "set_hooks_call_of (Call_set_hooks g hs) = Some (g, hs)"
| "set_hooks_call_of _ = None"

fun gail_of :: "'b event \<Rightarrow> 'b gail option" where
  "gail_of (New_GAIL g) = Some g"
| "gail_of _ = None"

fun train_call_of :: "'b event \<Rightarrow> ('b gail \<times> env \<times> nat) option" where
  "train_call_of (Call_train g e n) = Some (g, e, n)"
| "train_call_of _ = None"

text \<open>The environment an evaluation hook is made for.\<close>

fun eval_env_of :: "'b event \<Rightarrow> env option" where
  "eval_env_of (New_Hook (EvaluationHook e ev n wr)) = Some e"
| "eval_env_of _ = None"

subsection \<open>A run of train that reaches the training loop\<close>

text \<open>
  The objects and the trace of a run in which gym knows the environment and the expert
  file unpickles to \<open>b\<close>. They are compared with \<open>main\<close> below.
\<close>

definition run_train_env :: env where
  "run_train_env = NumpyFloat32Env (GymEnv 0 ''Pendulum-v1'')"

definition run_eval_env :: env where
  "run_eval_env = ScreenRenderEnv (NumpyFloat32Env (GymEnv 5 ''Pendulum-v1''))"

definition run_hooks :: "hook list" where
  "run_hooks =
     [EvaluationHook run_eval_env (EpisodicEvaluator 5) 10000
        (Some (FileWriter ''Pendulum-v1_results'' ''evaluation_result'')),
      IterationNumHook 100,
      SaveSnapshotHook ''Pendulum-v1_results'' 10000]"

definition run_config :: "'b world \<Rightarrow> gail_config" where
  "run_config w = (config_defaults w)\<lparr>gpu_id := 0, pi_batch_size := 10000,
     num_steps_per_iteration := 10000, discriminator_batch_size := 10000\<rparr>"

definition run_gail :: "'b world \<Rightarrow> 'b \<Rightarrow> 'b gail" where
  "run_gail w b =
     \<lparr>gail_env = run_train_env, gail_buffer = b, gail_config = run_config w,
      policy_builder = ExamplePolicyBuilder False,
      v_function_builder = ExampleVFunctionBuilder False,
      v_solver_builder = ExampleVSolverBuilder,
      reward_function_builder = ExampleRewardFunctionBuilder False,
      reward_solver_builder = ExampleRewardFunctionSolverBuilder\<rparr>"

definition run_trace :: "'b world \<Rightarrow> 'b \<Rightarrow> 'b event list" where
  "run_trace w b =
     [Call_gym_make ''Pendulum-v1'',
      New_NumpyFloat32Env run_train_env,
      Call_open ''./pendulum_v1_expert_buffer.pkl'' ''rb'',
      Call_pickle_load,
      Call_close,
      Call_gym_make ''Pendulum-v1'',
      New_NumpyFloat32Env (NumpyFloat32Env (GymEnv 5 ''Pendulum-v1'')),
      New_ScreenRenderEnv run_eval_env,
      New_FileWriter (FileWriter ''Pendulum-v1_results'' ''evaluation_result''),
      New_EpisodicEvaluator (EpisodicEvaluator 5),
      New_Hook (run_hooks ! 0),
      New_Hook (run_hooks ! 1),
      New_Hook (run_hooks ! 2),
      New_GAILConfig (run_config w),
      New_GAIL (run_gail w b),
      Call_set_hooks (run_gail w b) run_hooks,
      Call_train (run_gail w b) run_train_env 1000000]"

text \<open>
  A world for the examples: gym knows only the pendulum, the expert file exists and
  unpickles, and the configuration defaults differ from what the script sets.
\<close>

definition example_world :: "string world" where
  "example_world =
     \<lparr>gym_registered = (\<lambda>n. n = ''Pendulum-v1''),
      files = [''./pendulum_v1_expert_buffer.pkl'' \<mapsto> ''pickled''],
      pickle_loads = [''pickled'' \<mapsto> ''expert buffer''],
      config_defaults =
        \<lparr>gpu_id = - 1, pi_batch_size = 50000, num_steps_per_iteration = 50000,
         discriminator_batch_size = 50000, vf_learning_rate = FloatLit ''0.001'',
         discriminator_learning_rate = FloatLit ''0.01''\<rparr>\<rparr>"

subsection \<open>An empty registry\<close>

text \<open>No parameter registered yet, at the top scope.\<close>

definition fresh_state :: nn_state where
  "fresh_state = \<lparr>cur_scope = [], parameters = []\<rparr>"

section \<open>Properties\<close>

subsection \<open>The classes of the module\<close>

text \<open>
  C1, as stated: the builder classes of the script (the subclasses of ModelBuilder and of
  SolverBuilder) are exactly four. The module declares five, so the statement fails.
\<close>

theorem builder_classes_not_four: "card (set builder_classes) \<noteq> 4"
  by (simp add: builder_classes_def class_statements_def)

text \<open>
  C1, amended: the script declares exactly five builder classes, three subclasses of
  ModelBuilder (policy, value function, reward function) and two of SolverBuilder (the
  solvers of the value function and of the reward function).
\<close>

theorem builder_classes_five:
  "builder_classes =
     [''ExamplePolicyBuilder'', ''ExampleVFunctionBuilder'', ''ExampleVSolverBuilder'',
      ''ExampleRewardFunctionBuilder'', ''ExampleRewardFunctionSolverBuilder'']
   \<and> distinct builder_classes
   \<and> card (set builder_classes) = 5
   \<and> subclasses_of ModelBuilder =
       [''ExamplePolicyBuilder'', ''ExampleVFunctionBuilder'', ''ExampleRewardFunctionBuilder'']
   \<and> subclasses_of SolverBuilder =
       [''ExampleVSolverBuilder'', ''ExampleRewardFunctionSolverBuilder'']"
  by (simp add: builder_classes_def subclasses_of_def class_statements_def)

text \<open>
  C10: a model builder returns the mujoco class of its kind when its flag is set and the
  classic-control class otherwise, the policy builder handing on the action dimension of
  the environment; the solver builders return Adam with the learning rate of the value
  function, respectively of the discriminator, read from the configuration.
\<close>

theorem builder_dispatch:
  "build_model (ExamplePolicyBuilder is_mujoco) scope_name env_info config =
     (if is_mujoco then ExampleMujocoPolicy scope_name (action_dim env_info)
      else ExampleClassicControlPolicy scope_name (action_dim env_info))
   \<and> build_model (ExampleVFunctionBuilder is_mujoco) scope_name env_info config =
     (if is_mujoco then ExampleMujocoVFunction scope_name
      else ExampleClassicControlVFunction scope_name)
   \<and> build_model (ExampleRewardFunctionBuilder is_mujoco) scope_name env_info config =
     (if is_mujoco then ExampleMujocoDiscriminator scope_name
      else ExampleClassicDiscriminator scope_name)
   \<and> build_solver ExampleVSolverBuilder env_info config = Adam (vf_learning_rate config)
   \<and> alpha (build_solver ExampleVSolverBuilder env_info config) = vf_learning_rate config
   \<and> build_solver ExampleRewardFunctionSolverBuilder env_info config
       = Adam (discriminator_learning_rate config)
   \<and> alpha (build_solver ExampleRewardFunctionSolverBuilder env_info config)
       = discriminator_learning_rate config"
  by simp

subsection \<open>The discriminators\<close>

text \<open>
  C8: the reward of both discriminators is the same for any two next states, and it is a
  function of the concatenation of the current state and action alone.
\<close>

theorem discriminator_ignores_next_state:
  "ExampleClassicDiscriminator_r scope_name s_current a_current s_next1
     = ExampleClassicDiscriminator_r scope_name s_current a_current s_next2
   \<and> ExampleMujocoDiscriminator_r scope_name s_current a_current s_next1
     = ExampleMujocoDiscriminator_r scope_name s_current a_current s_next2
   \<and> (\<exists>g. \<forall>scope_name s_current a_current s_next.
          ExampleClassicDiscriminator_r scope_name s_current a_current s_next
          = py_bind (py_lift (F_concatenate s_current a_current 1)) (g scope_name))
   \<and> (\<exists>g. \<forall>scope_name s_current a_current s_next.
          ExampleMujocoDiscriminator_r scope_name s_current a_current s_next
          = py_bind (py_lift (F_concatenate s_current a_current 1)) (g scope_name))"
  unfolding ExampleClassicDiscriminator_r_def ExampleMujocoDiscriminator_r_def
  by (intro conjI exI allI) (rule refl)+

subsection \<open>The script\<close>

text \<open>The environment factory, the loading of the expert data and the whole script, run.\<close>


lemma build_env:
  "build_classic_control_env w env_name render tr =
     (if gym_registered w env_name
      then (if render
            then (Inr (ScreenRenderEnv (NumpyFloat32Env (GymEnv (length tr) env_name))),
                  tr @ [Call_gym_make env_name,
                        New_NumpyFloat32Env (NumpyFloat32Env (GymEnv (length tr) env_name)),
                        New_ScreenRenderEnv
                          (ScreenRenderEnv (NumpyFloat32Env (GymEnv (length tr) env_name)))])
            else (Inr (NumpyFloat32Env (GymEnv (length tr) env_name)),
                  tr @ [Call_gym_make env_name,
                        New_NumpyFloat32Env (NumpyFloat32Env (GymEnv (length tr) env_name))]))
      else (Inl GymError, tr @ [Call_gym_make env_name]))"
  by (simp add: build_classic_control_env_def gym_make_def construct_def emit_def
      py_bind_def py_return_def)

lemma load_buffer:
  "with_open w path mode (\<lambda>f. pickle_load w f) tr =
     (case files w path of
        None \<Rightarrow> (Inl FileNotFoundError, tr @ [Call_open path mode])
      | Some f \<Rightarrow>
          (case pickle_loads w f of
             None \<Rightarrow> (Inl UnpicklingError, tr @ [Call_open path mode, Call_pickle_load, Call_close])
           | Some b \<Rightarrow> (Inr b, tr @ [Call_open path mode, Call_pickle_load, Call_close])))"
  by (simp add: with_open_def pickle_load_def emit_def py_bind_def py_return_def py_raise_def
      split: option.splits)

lemma main_ok:
  assumes "gym_registered w ''Pendulum-v1''"
      and "files w ''./pendulum_v1_expert_buffer.pkl'' = Some f"
      and "pickle_loads w f = Some b"
  shows "main w = (Inr (), run_trace w b)"
  using assms
  by (simp add: main_def train_def build_env load_buffer construct_def emit_def
      new_GAILConfig_def py_bind_def py_return_def Let_def
      run_trace_def run_gail_def run_config_def run_hooks_def run_train_env_def run_eval_env_def)

lemma main_no_gym:
  assumes "\<not> gym_registered w ''Pendulum-v1''"
  shows "main w = (Inl GymError, [Call_gym_make ''Pendulum-v1''])"
  using assms by (simp add: main_def train_def build_env py_bind_def Let_def)

lemma main_no_file:
  assumes "gym_registered w ''Pendulum-v1''"
      and "files w ''./pendulum_v1_expert_buffer.pkl'' = None"
  shows "main w = (Inl FileNotFoundError,
           [Call_gym_make ''Pendulum-v1'', New_NumpyFloat32Env run_train_env,
            Call_open ''./pendulum_v1_expert_buffer.pkl'' ''rb''])"
  using assms
  by (simp add: main_def train_def build_env load_buffer py_bind_def Let_def run_train_env_def)

lemma main_unpicklable:
  assumes "gym_registered w ''Pendulum-v1''"
      and "files w ''./pendulum_v1_expert_buffer.pkl'' = Some f"
      and "pickle_loads w f = None"
  shows "main w = (Inl UnpicklingError,
           [Call_gym_make ''Pendulum-v1'', New_NumpyFloat32Env run_train_env,
            Call_open ''./pendulum_v1_expert_buffer.pkl'' ''rb'', Call_pickle_load, Call_close])"
  using assms
  by (simp add: main_def train_def build_env load_buffer py_bind_def Let_def run_train_env_def)

lemmas run_defs = run_trace_def run_gail_def run_config_def run_hooks_def run_train_env_def
  run_eval_env_def

lemma example_world_ok:
  "gym_registered example_world ''Pendulum-v1''"
  "files example_world ''./pendulum_v1_expert_buffer.pkl'' = Some ''pickled''"
  "pickle_loads example_world ''pickled'' = Some ''expert buffer''"
  by (simp_all add: example_world_def)

text \<open>
  C2: \<^verbatim>\<open>build_classic_control_env\<close> returns what \<^verbatim>\<open>gym.make\<close> made (its exception is
  passed on) inside NumpyFloat32Env, and inside ScreenRenderEnv around that exactly when
  \<open>render\<close> holds. In a run that gets so far, the environment given to the algorithm is
  the one built without rendering, the one of the evaluation hook the one built with it.
\<close>

theorem env_wrappers:
  "fst (build_classic_control_env w env_name render tr) =
     (if gym_registered w env_name
      then Inr (if render then ScreenRenderEnv (NumpyFloat32Env (GymEnv (length tr) env_name))
                else NumpyFloat32Env (GymEnv (length tr) env_name))
      else Inl GymError)
   \<and> (gym_registered w ''Pendulum-v1''
        \<and> files w ''./pendulum_v1_expert_buffer.pkl'' = Some f \<and> pickle_loads w f = Some b
      \<longrightarrow> (\<exists>g e. List.map_filter gail_of (snd (main w)) = [g]
                 \<and> Inr (gail_env g) = fst (build_classic_control_env w ''Pendulum-v1'' False [])
                 \<and> List.map_filter eval_env_of (snd (main w)) = [e]
                 \<and> Inr e = fst (build_classic_control_env w ''Pendulum-v1'' True
                                 (take 5 (snd (main w))))))"
proof (intro conjI impI)
  show "fst (build_classic_control_env w env_name render tr) =
     (if gym_registered w env_name
      then Inr (if render then ScreenRenderEnv (NumpyFloat32Env (GymEnv (length tr) env_name))
                else NumpyFloat32Env (GymEnv (length tr) env_name))
      else Inl GymError)"
    by (simp add: build_env)
next
  assume a: "gym_registered w ''Pendulum-v1''
        \<and> files w ''./pendulum_v1_expert_buffer.pkl'' = Some f \<and> pickle_loads w f = Some b"
  then have m: "main w = (Inr (), run_trace w b)" by (simp add: main_ok)
  show "\<exists>g e. List.map_filter gail_of (snd (main w)) = [g]
                 \<and> Inr (gail_env g) = fst (build_classic_control_env w ''Pendulum-v1'' False [])
                 \<and> List.map_filter eval_env_of (snd (main w)) = [e]
                 \<and> Inr e = fst (build_classic_control_env w ''Pendulum-v1'' True
                                 (take 5 (snd (main w))))"
    using a by (simp add: m build_env run_defs)
qed

theorem env_wrappers_witness:
  "gym_registered example_world ''Pendulum-v1''
   \<and> files example_world ''./pendulum_v1_expert_buffer.pkl'' = Some ''pickled''
   \<and> pickle_loads example_world ''pickled'' = Some ''expert buffer''
   \<and> (\<exists>g e. List.map_filter gail_of (snd (main example_world)) = [g]
         \<and> Inr (gail_env g) = fst (build_classic_control_env example_world ''Pendulum-v1'' False [])
         \<and> List.map_filter eval_env_of (snd (main example_world)) = [e]
         \<and> Inr e = fst (build_classic_control_env example_world ''Pendulum-v1'' True
                         (take 5 (snd (main example_world)))))"
proof -
  have h: "gym_registered example_world ''Pendulum-v1''
     \<and> files example_world ''./pendulum_v1_expert_buffer.pkl'' = Some ''pickled''
     \<and> pickle_loads example_world ''pickled'' = Some ''expert buffer''"
    by (simp add: example_world_def)
  with env_wrappers [of example_world "''Pendulum-v1''" False "[]" "''pickled''" "''expert buffer''"]
  show ?thesis by blast
qed

text \<open>
  C3: a run that reaches the training loop makes one GAILConfig, with pi_batch_size,
  discriminator_batch_size and num_steps_per_iteration all 10000, gives it to the one
  algorithm object, and sets on that object, before it calls train, exactly three hooks:
  an evaluation hook with timing 10000, an iteration-number hook with timing 100 and a
  snapshot hook with timing 10000.
\<close>
theorem config_and_hooks:
  assumes "gym_registered w ''Pendulum-v1''"
      and "files w ''./pendulum_v1_expert_buffer.pkl'' = Some f"
      and "pickle_loads w f = Some b"
  shows "\<exists>c g e ev wr d.
           List.map_filter config_of (snd (main w)) = [c]
           \<and> pi_batch_size c = 10000 \<and> discriminator_batch_size c = 10000
           \<and> num_steps_per_iteration c = 10000
           \<and> List.map_filter gail_of (snd (main w)) = [g] \<and> gail_config g = c
           \<and> List.map_filter set_hooks_call_of (snd (main w)) =
                [(g, [EvaluationHook e ev 10000 wr, IterationNumHook 100,
                      SaveSnapshotHook d 10000])]
           \<and> first_at is_set_hooks (snd (main w)) < first_at is_train (snd (main w))
           \<and> first_at is_train (snd (main w)) < length (snd (main w))"
  using assms by (simp add: main_ok run_defs first_at_def)

theorem config_and_hooks_witness:
  "\<exists>c g e ev wr d.
           List.map_filter config_of (snd (main example_world)) = [c]
           \<and> pi_batch_size c = 10000 \<and> discriminator_batch_size c = 10000
           \<and> num_steps_per_iteration c = 10000
           \<and> List.map_filter gail_of (snd (main example_world)) = [g] \<and> gail_config g = c
           \<and> List.map_filter set_hooks_call_of (snd (main example_world)) =
                [(g, [EvaluationHook e ev 10000 wr, IterationNumHook 100,
                      SaveSnapshotHook d 10000])]
           \<and> first_at is_set_hooks (snd (main example_world)) < first_at is_train (snd (main example_world))
           \<and> first_at is_train (snd (main example_world)) < length (snd (main example_world))"
  by (rule config_and_hooks [OF example_world_ok])

text \<open>
  C7: such a run calls the training loop once, as its last library call, with 1000000
  iterations and the environment the algorithm object was made with (not the one of the
  evaluation hook).
\<close>
theorem train_called_once:
  assumes "gym_registered w ''Pendulum-v1''"
      and "files w ''./pendulum_v1_expert_buffer.pkl'' = Some f"
      and "pickle_loads w f = Some b"
  shows "\<exists>g. List.map_filter gail_of (snd (main w)) = [g]
           \<and> List.map_filter train_call_of (snd (main w)) = [(g, gail_env g, 1000000)]
           \<and> last (snd (main w)) = Call_train g (gail_env g) 1000000
           \<and> length (filter is_train (snd (main w))) = 1
           \<and> List.map_filter eval_env_of (snd (main w)) \<noteq> [gail_env g]"
  using assms by (simp add: main_ok run_defs)

theorem train_called_once_witness:
  "\<exists>g. List.map_filter gail_of (snd (main example_world)) = [g]
           \<and> List.map_filter train_call_of (snd (main example_world)) = [(g, gail_env g, 1000000)]
           \<and> last (snd (main example_world)) = Call_train g (gail_env g) 1000000
           \<and> length (filter is_train (snd (main example_world))) = 1
           \<and> List.map_filter eval_env_of (snd (main example_world)) \<noteq> [gail_env g]"
  by (rule train_called_once [OF example_world_ok])

text \<open>
  C6: the script opens \<^verbatim>\<open>./pendulum_v1_expert_buffer.pkl\<close> in mode \<^verbatim>\<open>rb\<close>, unpickles it
  next, and makes the algorithm object later, with the unpickled buffer. When the file is
  absent or does not unpickle, train raises, and no configuration, hook or algorithm
  object has been made.
\<close>
theorem expert_data_loaded_first:
  "(gym_registered w ''Pendulum-v1''
      \<and> files w ''./pendulum_v1_expert_buffer.pkl'' = Some f \<and> pickle_loads w f = Some b
    \<longrightarrow> filter is_open (snd (main w)) = [Call_open ''./pendulum_v1_expert_buffer.pkl'' ''rb'']
        \<and> first_at is_pickle_load (snd (main w)) = Suc (first_at is_open (snd (main w)))
        \<and> first_at is_pickle_load (snd (main w)) < first_at is_new_GAIL (snd (main w))
        \<and> first_at is_new_GAIL (snd (main w)) < length (snd (main w))
        \<and> map gail_buffer (List.map_filter gail_of (snd (main w))) = [b])
   \<and> (files w ''./pendulum_v1_expert_buffer.pkl'' = None
    \<longrightarrow> fst (main w) = Inl (if gym_registered w ''Pendulum-v1'' then FileNotFoundError else GymError)
        \<and> filter makes_algorithm_part (snd (main w)) = [])
   \<and> (files w ''./pendulum_v1_expert_buffer.pkl'' = Some f \<and> pickle_loads w f = None
    \<longrightarrow> fst (main w) = Inl (if gym_registered w ''Pendulum-v1'' then UnpicklingError else GymError)
        \<and> filter makes_algorithm_part (snd (main w)) = [])"
proof (intro conjI impI)
  assume a: "gym_registered w ''Pendulum-v1''
      \<and> files w ''./pendulum_v1_expert_buffer.pkl'' = Some f \<and> pickle_loads w f = Some b"
  then have m: "main w = (Inr (), run_trace w b)" by (simp add: main_ok)
  show "filter is_open (snd (main w)) = [Call_open ''./pendulum_v1_expert_buffer.pkl'' ''rb'']"
    "first_at is_pickle_load (snd (main w)) = Suc (first_at is_open (snd (main w)))"
    "first_at is_pickle_load (snd (main w)) < first_at is_new_GAIL (snd (main w))"
    "first_at is_new_GAIL (snd (main w)) < length (snd (main w))"
    "map gail_buffer (List.map_filter gail_of (snd (main w))) = [b]"
    by (simp_all add: m run_defs first_at_def)
next
  assume a: "files w ''./pendulum_v1_expert_buffer.pkl'' = None"
  show "fst (main w) = Inl (if gym_registered w ''Pendulum-v1'' then FileNotFoundError else GymError)"
    "filter makes_algorithm_part (snd (main w)) = []"
    using a by (cases "gym_registered w ''Pendulum-v1''"; simp add: main_no_gym main_no_file)+
next
  assume a: "files w ''./pendulum_v1_expert_buffer.pkl'' = Some f \<and> pickle_loads w f = None"
  show "fst (main w) = Inl (if gym_registered w ''Pendulum-v1'' then UnpicklingError else GymError)"
    "filter makes_algorithm_part (snd (main w)) = []"
    using a by (cases "gym_registered w ''Pendulum-v1''"; simp add: main_no_gym main_unpicklable)+
qed

theorem expert_data_loaded_first_witness:
  "(filter is_open (snd (main example_world))
       = [Call_open ''./pendulum_v1_expert_buffer.pkl'' ''rb'']
     \<and> first_at is_pickle_load (snd (main example_world))
         = Suc (first_at is_open (snd (main example_world)))
     \<and> first_at is_pickle_load (snd (main example_world))
         < first_at is_new_GAIL (snd (main example_world))
     \<and> first_at is_new_GAIL (snd (main example_world)) < length (snd (main example_world))
     \<and> map gail_buffer (List.map_filter gail_of (snd (main example_world)))
         = [''expert buffer''])
   \<and> (fst (main (example_world\<lparr>files := Map.empty\<rparr>)) = Inl FileNotFoundError
     \<and> filter makes_algorithm_part (snd (main (example_world\<lparr>files := Map.empty\<rparr>))) = [])
   \<and> (fst (main (example_world\<lparr>pickle_loads := Map.empty\<rparr>)) = Inl UnpicklingError
     \<and> filter makes_algorithm_part
           (snd (main (example_world\<lparr>pickle_loads := Map.empty\<rparr>))) = [])"
proof (intro conjI)
  note ok = expert_data_loaded_first
      [of example_world "''pickled''" "''expert buffer''", THEN conjunct1, rule_format]
  have h: "gym_registered example_world ''Pendulum-v1''
      \<and> files example_world ''./pendulum_v1_expert_buffer.pkl'' = Some ''pickled''
      \<and> pickle_loads example_world ''pickled'' = Some ''expert buffer''"
    by (simp add: example_world_def)
  show "filter is_open (snd (main example_world))
       = [Call_open ''./pendulum_v1_expert_buffer.pkl'' ''rb'']"
    "first_at is_pickle_load (snd (main example_world))
         = Suc (first_at is_open (snd (main example_world)))"
    "first_at is_pickle_load (snd (main example_world))
         < first_at is_new_GAIL (snd (main example_world))"
    "first_at is_new_GAIL (snd (main example_world)) < length (snd (main example_world))"
    "map gail_buffer (List.map_filter gail_of (snd (main example_world)))
         = [''expert buffer'']"
    using ok [OF h] by blast+
next
  note absent = expert_data_loaded_first
      [of "example_world\<lparr>files := Map.empty\<rparr>" "''pickled''" "''expert buffer''",
        THEN conjunct2, THEN conjunct1, rule_format]
  have h: "files (example_world\<lparr>files := Map.empty\<rparr>) ''./pendulum_v1_expert_buffer.pkl'' = None"
    by simp
  have g: "gym_registered (example_world\<lparr>files := Map.empty\<rparr>) ''Pendulum-v1''"
    by (simp add: example_world_def)
  show "fst (main (example_world\<lparr>files := Map.empty\<rparr>)) = Inl FileNotFoundError"
    "filter makes_algorithm_part (snd (main (example_world\<lparr>files := Map.empty\<rparr>))) = []"
    using absent [OF h] g by simp_all
next
  note bad = expert_data_loaded_first
      [of "example_world\<lparr>pickle_loads := Map.empty\<rparr>" "''pickled''" "''expert buffer''",
        THEN conjunct2, THEN conjunct2, rule_format]
  have h: "files (example_world\<lparr>pickle_loads := Map.empty\<rparr>) ''./pendulum_v1_expert_buffer.pkl''
        = Some ''pickled''
      \<and> pickle_loads (example_world\<lparr>pickle_loads := Map.empty\<rparr>) ''pickled'' = None"
    by (simp add: example_world_def)
  have g: "gym_registered (example_world\<lparr>pickle_loads := Map.empty\<rparr>) ''Pendulum-v1''"
    by (simp add: example_world_def)
  show "fst (main (example_world\<lparr>pickle_loads := Map.empty\<rparr>)) = Inl UnpicklingError"
    "filter makes_algorithm_part
           (snd (main (example_world\<lparr>pickle_loads := Map.empty\<rparr>))) = []"
    using bad [OF h] g by simp_all
qed

subsection \<open>The networks\<close>

text \<open>The registry under \<^verbatim>\<open>get_parameter_or_create\<close>, and a layer call run in any state.\<close>

lemma scope_names_literals [simp]:
  "scope_names ''affine'' = [''affine'']"
  "scope_names ''affine1'' = [''affine1'']"
  "scope_names ''affine2'' = [''affine2'']"
  "scope_names ''affine3'' = [''affine3'']"
  "scope_names ''linear1'' = [''linear1'']"
  "scope_names ''linear2'' = [''linear2'']"
  "scope_names ''linear3'' = [''linear3'']"
  by (simp_all add: scope_names_def)


lemma cur_scope_register [simp]: "cur_scope (register p shp ini st) = cur_scope st"
  by (simp add: register_def split: option.splits)

lemma compatible_cur_scope [simp]: "compatible (st\<lparr>cur_scope := c\<rparr>) p shp = compatible st p shp"
  by (simp add: compatible_def)

lemma init_at_cur_scope [simp]: "init_at (st\<lparr>cur_scope := c\<rparr>) p ini = init_at st p ini"
  by (simp add: init_at_def)

lemma register_cur_scope [simp]:
  "register p shp ini (st\<lparr>cur_scope := c\<rparr>) = (register p shp ini st)\<lparr>cur_scope := c\<rparr>"
  by (simp add: register_def split: option.splits)

lemma map_of_register:
  "map_of (parameters (register p shp ini st)) q =
     (if q = p \<and> map_of (parameters st) p = None then Some (shp, ini)
      else map_of (parameters st) q)"
  by (auto simp: register_def map_add_def split: option.splits)

lemma compatible_register_other [simp]:
  "q \<noteq> p \<Longrightarrow> compatible (register p shp ini st) q s = compatible st q s"
  by (simp add: compatible_def map_of_register)

lemma init_at_register_other [simp]:
  "q \<noteq> p \<Longrightarrow> init_at (register p shp ini st) q i = init_at st q i"
  by (simp add: init_at_def map_of_register)

lemma compatible_register_same:
  "compatible st p shp \<Longrightarrow> compatible (register p shp ini st) p s = (s = shp)"
  by (auto simp: compatible_def map_of_register split: option.splits)

lemma get_parameter_or_create_run:
  "get_parameter_or_create name shp ini st =
     (if compatible st (cur_scope st @ [name]) shp
      then (Inr (Param (cur_scope st @ [name]) shp (init_at st (cur_scope st @ [name]) ini)),
            register (cur_scope st @ [name]) shp ini st)
      else (Inl ValueError, st))"
  by (simp add: get_parameter_or_create_def compatible_def init_at_def register_def Let_def
      split: option.splits)

lemma PF_affine_run:
  "PF_affine inp n name w_init st =
     (let p = cur_scope st @ (case name of None \<Rightarrow> [] | Some nm \<Rightarrow> scope_names nm) @ [''affine''];
          inmaps = prod_list (drop 1 (shape inp));
          iw = (case w_init of None \<Rightarrow> UniformInitializerGlorot inmaps n | Some i \<Rightarrow> i)
      in if \<not> compatible st (p @ [''W'']) [inmaps, n] then (Inl ValueError, st)
         else if \<not> compatible st (p @ [''b'']) [n]
         then (Inl ValueError, register (p @ [''W'']) [inmaps, n] iw st)
         else (if 2 \<le> length (shape inp) then Inr (affine_in st p inp n iw) else Inl RuntimeError,
               register_layer p inmaps n iw st))"
proof (cases "2 \<le> length (shape inp)")
  case True
  then obtain a b r where s: "shape inp = a # b # r"
    by (cases "shape inp"; cases "tl (shape inp)") auto
  show ?thesis
    by (cases name)
      (simp_all add: PF_affine_def parameter_scope_def py_bind_def py_lift_def
        get_parameter_or_create_run F_affine_def affine_in_def affine_node_def
        register_layer_def Let_def s)
next
  case False
  then have l: "\<not> Suc 0 < length (shape inp)" by simp
  show ?thesis using False
    by (cases name)
      (simp_all add: PF_affine_def parameter_scope_def py_bind_def py_lift_def
        get_parameter_or_create_run F_affine_def register_layer_def Let_def l)
qed

lemma shape_affine_node [simp]: "shape (affine_node p x n iw ib) = [hd (shape x), n]"
  by (simp add: affine_node_def)

lemma shape_affine_in [simp]: "shape (affine_in st p x n iw) = [hd (shape x), n]"
  by (simp add: affine_in_def)

lemma shape_F_relu [simp]: "shape (F_relu x) = shape x"
  by (simp add: F_relu_def)

lemma shape_F_tanh [simp]: "shape (F_tanh x) = shape x"
  by (simp add: F_tanh_def)

lemma shape_F_mul_scalar [simp]: "shape (F_mul_scalar x c) = shape x"
  by (simp add: F_mul_scalar_def)

lemma affine_in_cur_scope [simp]: "affine_in (st\<lparr>cur_scope := c\<rparr>) = affine_in st"
  by (simp add: affine_in_def fun_eq_iff)

lemma affine_in_register_other [simp]:
  "q \<noteq> p @ [''W''] \<Longrightarrow> q \<noteq> p @ [''b'']
     \<Longrightarrow> affine_in (register q shp ini st) p = affine_in st p"
  by (simp add: affine_in_def fun_eq_iff)

lemma layer_compatible_cur_scope [simp]:
  "layer_compatible (st\<lparr>cur_scope := c\<rparr>) = layer_compatible st"
  by (simp add: layer_compatible_def fun_eq_iff)

lemma layer_compatible_register_other [simp]:
  "q \<noteq> p @ [''W''] \<Longrightarrow> q \<noteq> p @ [''b'']
     \<Longrightarrow> layer_compatible (register q shp ini st) p = layer_compatible st p"
  by (simp add: layer_compatible_def fun_eq_iff)

text \<open>The six forward passes, run on any input in any state.\<close>

lemmas run_nn = parameter_scope_def py_bind_def py_return_def py_lift_def PF_affine_run Let_def
  register_layer_def layer_compatible_def

lemma classic_v_fst:
  "fst (ExampleClassicControlVFunction_v scope_name s st) =
    (let c = cur_scope st @ scope_names scope_name;
         p1 = c @ [''affine1'', ''affine''];
         p2 = c @ [''affine2'', ''affine''];
         p3 = c @ [''affine3'', ''affine''];
         d = prod_list (drop 1 (shape s));
         h1 = F_relu (affine_in st p1 s 64 (UniformInitializerGlorot d 64));
         h2 = F_relu (affine_in st p2 h1 64 (UniformInitializerGlorot 64 64))
     in if \<not> layer_compatible st p1 d 64 then Inl ValueError
        else if length (shape s) < 2 then Inl RuntimeError
        else if \<not> layer_compatible st p2 64 64 then Inl ValueError
        else if \<not> layer_compatible st p3 64 1 then Inl ValueError
        else Inr (affine_in st p3 h2 1 (UniformInitializerGlorot 64 1)))"
  by (simp add: ExampleClassicControlVFunction_v_def run_nn)

lemma mujoco_v_fst:
  "fst (ExampleMujocoVFunction_v scope_name s st) =
    (let c = cur_scope st @ scope_names scope_name;
         p1 = c @ [''linear1'', ''affine''];
         p2 = c @ [''linear2'', ''affine''];
         p3 = c @ [''linear3'', ''affine''];
         d = prod_list (drop 1 (shape s));
         i = NormcInitializer (FloatLit ''1.0'');
         h1 = F_tanh (affine_in st p1 s 100 i);
         h2 = F_tanh (affine_in st p2 h1 100 i)
     in if \<not> layer_compatible st p1 d 100 then Inl ValueError
        else if length (shape s) < 2 then Inl RuntimeError
        else if \<not> layer_compatible st p2 100 100 then Inl ValueError
        else if \<not> layer_compatible st p3 100 1 then Inl ValueError
        else Inr (affine_in st p3 h2 1 i))"
  by (simp add: ExampleMujocoVFunction_v_def run_nn)

lemma classic_pi_fst:
  "fst (ExampleClassicControlPolicy_pi scope_name adim s st) =
    (let c = cur_scope st @ scope_names scope_name;
         p1 = c @ [''affine1'', ''affine''];
         p2 = c @ [''affine2'', ''affine''];
         p3 = c @ [''affine3'', ''affine''];
         d = prod_list (drop 1 (shape s));
         i = OrthogonalInitializer (NpSqrt (FloatLit ''2.0''));
         h1 = F_relu (affine_in st p1 s 64 i);
         h2 = F_relu (affine_in st p2 h1 64 i);
         h3 = affine_in st p3 h2 (adim * 2) (OrthogonalInitializer (NpSqrt (FloatLit ''0.01'')));
         reshaped = Apply (ReshapeF [- 1, 2, int adim]) [h3] 0 [hd (shape s), 2, adim]
     in if \<not> layer_compatible st p1 d 64 then Inl ValueError
        else if length (shape s) < 2 then Inl RuntimeError
        else if \<not> layer_compatible st p2 64 64 then Inl ValueError
        else if \<not> layer_compatible st p3 64 (adim * 2) then Inl ValueError
        else if adim = 0 then Inl RuntimeError
        else Inr (Gaussian (Apply (SplitF 1) [reshaped] 0 [hd (shape s), adim])
                    (F_mul_scalar (Apply (SplitF 1) [reshaped] 1 [hd (shape s), adim])
                       (FloatLit ''2.0''))))"
proof -
  have u: "[0..<2] = [0, 1]" by (simp add: upt_rec)
  show ?thesis
    by (simp add: ExampleClassicControlPolicy_pi_def run_nn F_reshape_infer_def
        F_split_def unpack2_def u)
qed

lemma mujoco_pi_fst:
  "fst (ExampleMujocoPolicy_pi scope_name adim s st) =
    (let c = cur_scope st @ scope_names scope_name;
         p1 = c @ [''linear1'', ''affine''];
         p2 = c @ [''linear2'', ''affine''];
         p3 = c @ [''linear3'', ''affine''];
         d = prod_list (drop 1 (shape s));
         i = NormcInitializer (FloatLit ''1.0'');
         h1 = F_tanh (affine_in st p1 s 100 i);
         h2 = F_tanh (affine_in st p2 h1 100 i);
         ln_sigma = Param (c @ [''ln_sigma'']) [1, adim]
                      (init_at st (c @ [''ln_sigma'']) (ConstantInitializer (FloatLit ''0.0'')))
     in if \<not> layer_compatible st p1 d 100 then Inl ValueError
        else if length (shape s) < 2 then Inl RuntimeError
        else if \<not> layer_compatible st p2 100 100 then Inl ValueError
        else if \<not> layer_compatible st p3 100 adim then Inl ValueError
        else if \<not> compatible st (c @ [''ln_sigma'']) [1, adim] then Inl ValueError
        else Inr (Gaussian (affine_in st p3 h2 adim (NormcInitializer (FloatLit ''0.01'')))
                    (F_mul_scalar (Apply (BroadcastF [hd (shape s), adim]) [ln_sigma] 0
                                     [hd (shape s), adim]) (FloatLit ''2.0''))))"
proof (cases "2 \<le> length (shape s)")
  case True
  then obtain a b r where s: "shape s = a # b # r"
    by (cases "shape s"; cases "tl (shape s)") auto
  show ?thesis
    by (simp add: ExampleMujocoPolicy_pi_def run_nn shape_at_def py_assert_def
        get_parameter_or_create_run F_broadcast_def s)
next
  case False
  then show ?thesis
    by (simp add: ExampleMujocoPolicy_pi_def run_nn)
qed

lemma classic_r_fst:
  "fst (ExampleClassicDiscriminator_r scope_name s a s_next st) =
    (case F_concatenate s a 1 of
       Inl e \<Rightarrow> Inl RuntimeError
     | Inr h0 \<Rightarrow>
        (let c = cur_scope st @ scope_names scope_name;
             p1 = c @ [''linear1'', ''affine''];
             p2 = c @ [''linear2'', ''affine''];
             p3 = c @ [''linear3'', ''affine''];
             d = prod_list (drop 1 (shape h0));
             h1 = F_tanh (affine_in st p1 h0 64 (GlorotUniform (shape h0 ! 1) 64));
             h2 = F_tanh (affine_in st p2 h1 64 (GlorotUniform 64 64))
         in if \<not> layer_compatible st p1 d 64 then Inl ValueError
            else if \<not> layer_compatible st p2 64 64 then Inl ValueError
            else if \<not> layer_compatible st p3 64 1 then Inl ValueError
            else Inr (affine_in st p3 h2 1 (GlorotUniform 64 1))))"
proof (cases "F_concatenate s a 1")
  case (Inl e)
  then have "e = RuntimeError" by (simp add: F_concatenate_def split: if_splits)
  with Inl show ?thesis by (simp add: ExampleClassicDiscriminator_r_def py_bind_def py_lift_def)
next
  case (Inr h0)
  then have "2 \<le> length (shape h0)"
    by (auto simp: F_concatenate_def split: if_splits)
  then obtain x y r where s: "shape h0 = x # y # r"
    by (cases "shape h0"; cases "tl (shape h0)") auto
  from Inr have c: "F_concatenate s a (Suc 0) = Inr h0" by simp
  show ?thesis
    by (simp add: ExampleClassicDiscriminator_r_def run_nn shape_at_def c s)
qed

lemma mujoco_r_fst:
  "fst (ExampleMujocoDiscriminator_r scope_name s a s_next st) =
    (case F_concatenate s a 1 of
       Inl e \<Rightarrow> Inl RuntimeError
     | Inr h0 \<Rightarrow>
        (let c = cur_scope st @ scope_names scope_name;
             p1 = c @ [''linear1'', ''affine''];
             p2 = c @ [''linear2'', ''affine''];
             p3 = c @ [''linear3'', ''affine''];
             d = prod_list (drop 1 (shape h0));
             h1 = F_tanh (affine_in st p1 h0 100 (GlorotUniform (shape h0 ! 1) 100));
             h2 = F_tanh (affine_in st p2 h1 100 (GlorotUniform 100 100))
         in if \<not> layer_compatible st p1 d 100 then Inl ValueError
            else if \<not> layer_compatible st p2 100 100 then Inl ValueError
            else if \<not> layer_compatible st p3 100 1 then Inl ValueError
            else Inr (affine_in st p3 h2 1 (GlorotUniform 100 1))))"
proof (cases "F_concatenate s a 1")
  case (Inl e)
  then have "e = RuntimeError" by (simp add: F_concatenate_def split: if_splits)
  with Inl show ?thesis by (simp add: ExampleMujocoDiscriminator_r_def py_bind_def py_lift_def)
next
  case (Inr h0)
  then have "2 \<le> length (shape h0)"
    by (auto simp: F_concatenate_def split: if_splits)
  then obtain x y r where s: "shape h0 = x # y # r"
    by (cases "shape h0"; cases "tl (shape h0)") auto
  from Inr have c: "F_concatenate s a (Suc 0) = Inr h0" by simp
  show ?thesis
    by (simp add: ExampleMujocoDiscriminator_r_def run_nn shape_at_def c s)
qed

text \<open>Rules for the scope of the parameters a forward pass registers.\<close>

lemma cis_pure:
  assumes "\<And>st. snd (m st) = st"
  shows "creates_in_scope q m st"
  by (simp add: creates_in_scope_def created_def assms)

lemma cis_return: "creates_in_scope q (py_return x) st"
  by (rule cis_pure) (simp add: py_return_def)

lemma cis_lift: "creates_in_scope q (py_lift r) st"
  by (rule cis_pure) (simp add: py_lift_def)

lemma cis_assert: "creates_in_scope q (py_assert c) st"
  by (rule cis_pure) (simp add: py_assert_def py_return_def py_raise_def)

lemma cis_get_parameter_or_create:
  "creates_in_scope [] (get_parameter_or_create name shp ini) st"
  by (simp add: creates_in_scope_def created_def get_parameter_or_create_def Let_def
      split: option.splits)

lemma cis_bind:
  assumes m: "\<And>st. creates_in_scope q m st"
      and f: "\<And>x st. creates_in_scope q (f x) st"
  shows "creates_in_scope q (py_bind m f) st"
proof -
  obtain r st1 where r: "m st = (r, st1)" by (cases "m st")
  from m [of st] r have c1: "cur_scope st1 = cur_scope st"
    and p1: "take (length (parameters st)) (parameters st1) = parameters st"
    and n1: "list_all (\<lambda>e. prefix (cur_scope st @ q) (fst e))
               (drop (length (parameters st)) (parameters st1))"
    by (simp_all add: creates_in_scope_def created_def)
  show ?thesis
  proof (cases r)
    case (Inl e)
    with r m [of st] show ?thesis
      by (simp add: creates_in_scope_def created_def py_bind_def)
  next
    case (Inr x)
    obtain r2 st2 where r2: "f x st1 = (r2, st2)" by (cases "f x st1")
    from f [of x st1] r2 c1 have c2: "cur_scope st2 = cur_scope st"
      and p2: "take (length (parameters st1)) (parameters st2) = parameters st1"
      and n2: "list_all (\<lambda>e. prefix (cur_scope st @ q) (fst e))
                 (drop (length (parameters st1)) (parameters st2))"
      by (simp_all add: creates_in_scope_def created_def)
    define new1 where "new1 = drop (length (parameters st)) (parameters st1)"
    define new2 where "new2 = drop (length (parameters st1)) (parameters st2)"
    have e1: "parameters st1 = parameters st @ new1"
      using p1 unfolding new1_def by (metis append_take_drop_id)
    have e2: "parameters st2 = parameters st1 @ new2"
      using p2 unfolding new2_def by (metis append_take_drop_id)
    have res: "py_bind m f st = (r2, st2)"
      using r Inr r2 by (simp add: py_bind_def)
    show ?thesis
      using n1 n2 c2 unfolding creates_in_scope_def created_def res
      by (simp add: e2 e1 new1_def [symmetric] new2_def [symmetric])
  qed
qed

lemma cis_scope:
  assumes "\<And>st. creates_in_scope q body st"
  shows "creates_in_scope (scope_names name @ q) (parameter_scope name body) st"
  using assms [of "st\<lparr>cur_scope := cur_scope st @ scope_names name\<rparr>"]
  by (auto simp: creates_in_scope_def created_def parameter_scope_def split: prod.splits)

lemma cis_weaken:
  assumes "creates_in_scope (q @ r) m st"
  shows "creates_in_scope q m st"
proof -
  have "prefix (cur_scope st @ q) p" if "prefix (cur_scope st @ q @ r) p" for p
    using that by (metis append_assoc append_prefixD)
  then show ?thesis
    using assms unfolding creates_in_scope_def list_all_iff by auto
qed

lemma cis_nil: "creates_in_scope q m st \<Longrightarrow> creates_in_scope [] m st"
  using cis_weaken [of "[]" q m st] by simp

lemma cis_inner_scope:
  assumes "\<And>st. creates_in_scope [] body st"
  shows "creates_in_scope [] (parameter_scope name body) st"
  by (rule cis_nil, rule cis_scope, rule assms)

lemma cis_outer_scope:
  assumes "\<And>st. creates_in_scope [] body st"
  shows "creates_in_scope (scope_names name) (parameter_scope name body) st"
  using cis_scope [of "[]" body name st] assms by simp

lemma cis_PF_affine: "creates_in_scope [] (PF_affine inp n name w_init) st"
  unfolding PF_affine_def Let_def
  by (cases name; simp)
     (intro cis_inner_scope cis_bind cis_get_parameter_or_create cis_lift)+

lemmas cis_intros = cis_bind cis_inner_scope cis_PF_affine cis_return cis_lift cis_assert
  cis_get_parameter_or_create

lemma cis_case_prod:
  assumes "\<And>a b. creates_in_scope q (f a b) st"
  shows "creates_in_scope q (case x of (a, b) \<Rightarrow> f a b) st"
  using assms by (cases x) simp

lemma classic_v_scoped:
  "creates_in_scope (scope_names scope_name) (ExampleClassicControlVFunction_v scope_name s) st"
  unfolding ExampleClassicControlVFunction_v_def
  by (rule cis_outer_scope) (intro cis_intros)

lemma mujoco_v_scoped:
  "creates_in_scope (scope_names scope_name) (ExampleMujocoVFunction_v scope_name s) st"
  unfolding ExampleMujocoVFunction_v_def
  by (rule cis_outer_scope) (intro cis_intros)

lemma classic_pi_scoped:
  "creates_in_scope (scope_names scope_name) (ExampleClassicControlPolicy_pi scope_name adim s) st"
  unfolding ExampleClassicControlPolicy_pi_def
  apply (rule cis_bind)
   apply (rule cis_outer_scope)
   apply (intro cis_intros cis_case_prod)
  apply (rule cis_case_prod, rule cis_return)
  done

lemma mujoco_pi_scoped:
  "creates_in_scope (scope_names scope_name) (ExampleMujocoPolicy_pi scope_name adim s) st"
  unfolding ExampleMujocoPolicy_pi_def
  apply (rule cis_bind)
   apply (rule cis_outer_scope)
   apply (intro cis_intros)
  apply (rule cis_case_prod, rule cis_return)
  done

lemma classic_r_scoped:
  "creates_in_scope (scope_names scope_name)
     (ExampleClassicDiscriminator_r scope_name s a s_next) st"
  unfolding ExampleClassicDiscriminator_r_def
  apply (rule cis_bind, rule cis_lift)
  apply (rule cis_outer_scope)
  apply (intro cis_intros)
  done

lemma mujoco_r_scoped:
  "creates_in_scope (scope_names scope_name)
     (ExampleMujocoDiscriminator_r scope_name s a s_next) st"
  unfolding ExampleMujocoDiscriminator_r_def
  apply (rule cis_bind, rule cis_lift)
  apply (rule cis_outer_scope)
  apply (intro cis_intros)
  done

text \<open>The registry that a pass leaves, for the passes that follow.\<close>

lemma cur_scope_register_layer [simp]:
  "cur_scope (register_layer p i n iw st) = cur_scope st"
  by (simp add: register_layer_def)

lemma layer_compatible_register_layer_other [simp]:
  "q \<noteq> p \<Longrightarrow> layer_compatible (register_layer q i n iw st) p = layer_compatible st p"
  by (simp add: register_layer_def)

lemma layer_compatible_register_layer_same:
  "layer_compatible st p i n
     \<Longrightarrow> layer_compatible (register_layer p i n iw st) p i' n' = (i' = i \<and> n' = n)"
  by (auto simp: register_layer_def layer_compatible_def compatible_register_same)

lemma compatible_register_layer_other [simp]:
  "q \<noteq> p @ [''W''] \<Longrightarrow> q \<noteq> p @ [''b'']
     \<Longrightarrow> compatible (register_layer p i n iw st) q = compatible st q"
  by (simp add: register_layer_def fun_eq_iff)

lemma classic_v_snd:
  assumes "2 \<le> length (shape s)"
      and "layer_compatible st (cur_scope st @ scope_names scope_name @ [''affine1'', ''affine''])
             (prod_list (drop 1 (shape s))) 64"
      and "layer_compatible st (cur_scope st @ scope_names scope_name @ [''affine2'', ''affine''])
             64 64"
      and "layer_compatible st (cur_scope st @ scope_names scope_name @ [''affine3'', ''affine''])
             64 1"
  shows "snd (ExampleClassicControlVFunction_v scope_name s st) =
    (let c = cur_scope st @ scope_names scope_name;
         d = prod_list (drop 1 (shape s))
     in register_layer (c @ [''affine3'', ''affine'']) 64 1 (UniformInitializerGlorot 64 1)
          (register_layer (c @ [''affine2'', ''affine'']) 64 64 (UniformInitializerGlorot 64 64)
             (register_layer (c @ [''affine1'', ''affine'']) d 64
                (UniformInitializerGlorot d 64) st)))"
  using assms by (simp add: ExampleClassicControlVFunction_v_def run_nn)

lemma mujoco_pi_snd:
  assumes "2 \<le> length (shape s)"
      and "layer_compatible st (cur_scope st @ scope_names scope_name @ [''linear1'', ''affine''])
             (prod_list (drop 1 (shape s))) 100"
      and "layer_compatible st (cur_scope st @ scope_names scope_name @ [''linear2'', ''affine''])
             100 100"
      and "layer_compatible st (cur_scope st @ scope_names scope_name @ [''linear3'', ''affine''])
             100 adim"
      and "compatible st (cur_scope st @ scope_names scope_name @ [''ln_sigma'']) [1, adim]"
  shows "snd (ExampleMujocoPolicy_pi scope_name adim s st) =
    (let c = cur_scope st @ scope_names scope_name;
         d = prod_list (drop 1 (shape s))
     in register (c @ [''ln_sigma'']) [1, adim] (ConstantInitializer (FloatLit ''0.0''))
          (register_layer (c @ [''linear3'', ''affine'']) 100 adim
               (NormcInitializer (FloatLit ''0.01''))
             (register_layer (c @ [''linear2'', ''affine'']) 100 100
                  (NormcInitializer (FloatLit ''1.0''))
                (register_layer (c @ [''linear1'', ''affine'']) d 100
                   (NormcInitializer (FloatLit ''1.0'')) st))))"
proof -
  from assms(1) obtain a b r where s: "shape s = a # b # r"
    by (cases "shape s"; cases "tl (shape s)") auto
  show ?thesis using assms(2-)
    by (simp add: ExampleMujocoPolicy_pi_def run_nn shape_at_def py_assert_def
        get_parameter_or_create_run F_broadcast_def s)
qed

lemma layers_affine_in [simp]:
  "layers (affine_in st p x n iw) = layers x @ [(AffineF 1, n)]"
  by (simp add: affine_in_def affine_node_def)

lemma layers_F_relu [simp]: "layers (F_relu x) = layers x @ [(ReLU, last (shape x))]"
  by (simp add: F_relu_def)

lemma layers_F_tanh [simp]: "layers (F_tanh x) = layers x @ [(Tanh, last (shape x))]"
  by (simp add: F_tanh_def)

lemma inputs_of_affine_in [simp]: "inputs_of (affine_in st p x n iw) = inputs_of x"
  by (simp add: affine_in_def affine_node_def)

lemma inputs_of_F_relu [simp]: "inputs_of (F_relu x) = inputs_of x"
  by (simp add: F_relu_def)

lemma compatible_fresh [simp]: "compatible fresh_state p shp"
  by (simp add: compatible_def fresh_state_def)

lemma layer_compatible_fresh [simp]: "layer_compatible fresh_state p i n"
  by (simp add: layer_compatible_def)

lemma cur_scope_fresh [simp]: "cur_scope fresh_state = []"
  by (simp add: fresh_state_def)

text \<open>
  C5: for every input and every state, the value function of the classic-control networks
  returns the node affine(relu(affine(relu(affine(s, 64)), 64)), 1), made of its three
  layers in the scopes affine1, affine2, affine3, whenever it returns; it returns exactly
  when the input has a batch axis and a feature axis and the registry accepts the six
  parameters (the library raises otherwise). The node is a chain of three affine layers
  with relu after the first two, has one output per batch row and reads the input once.
  After a pass that returned, a pass on any input with the same features returns too.
\<close>

theorem classic_v_feed_forward:
  "(let c = cur_scope st @ scope_names scope_name;
        p1 = c @ [''affine1'', ''affine''];
        p2 = c @ [''affine2'', ''affine''];
        p3 = c @ [''affine3'', ''affine''];
        d = prod_list (drop 1 (shape s));
        h1 = affine_in st p1 s 64 (UniformInitializerGlorot d 64);
        h2 = affine_in st p2 (F_relu h1) 64 (UniformInitializerGlorot 64 64);
        h3 = affine_in st p3 (F_relu h2) 1 (UniformInitializerGlorot 64 1)
    in fst (ExampleClassicControlVFunction_v scope_name s st) =
         (if 2 \<le> length (shape s) \<and> layer_compatible st p1 d 64
               \<and> layer_compatible st p2 64 64 \<and> layer_compatible st p3 64 1
          then Inr h3
          else if length (shape s) < 2 \<and> layer_compatible st p1 d 64 then Inl RuntimeError
          else Inl ValueError)
       \<and> layers h3 = layers s @ three_layers ReLU 64 1
       \<and> shape h3 = [hd (shape s), 1]
       \<and> inputs_of h3 = inputs_of s)
   \<and> ((\<exists>h. fst (ExampleClassicControlVFunction_v scope_name s st) = Inr h)
        \<and> 2 \<le> length (shape s') \<and> drop 1 (shape s') = drop 1 (shape s)
      \<longrightarrow> (\<exists>h'. fst (ExampleClassicControlVFunction_v scope_name s'
                       (snd (ExampleClassicControlVFunction_v scope_name s st))) = Inr h'))"
proof (intro conjI impI)
  show "let c = cur_scope st @ scope_names scope_name;
        p1 = c @ [''affine1'', ''affine''];
        p2 = c @ [''affine2'', ''affine''];
        p3 = c @ [''affine3'', ''affine''];
        d = prod_list (drop 1 (shape s));
        h1 = affine_in st p1 s 64 (UniformInitializerGlorot d 64);
        h2 = affine_in st p2 (F_relu h1) 64 (UniformInitializerGlorot 64 64);
        h3 = affine_in st p3 (F_relu h2) 1 (UniformInitializerGlorot 64 1)
    in fst (ExampleClassicControlVFunction_v scope_name s st) =
         (if 2 \<le> length (shape s) \<and> layer_compatible st p1 d 64
               \<and> layer_compatible st p2 64 64 \<and> layer_compatible st p3 64 1
          then Inr h3
          else if length (shape s) < 2 \<and> layer_compatible st p1 d 64 then Inl RuntimeError
          else Inl ValueError)
       \<and> layers h3 = layers s @ three_layers ReLU 64 1
       \<and> shape h3 = [hd (shape s), 1]
       \<and> inputs_of h3 = inputs_of s"
    by (simp add: classic_v_fst Let_def three_layers_def)
next
  assume a: "(\<exists>h. fst (ExampleClassicControlVFunction_v scope_name s st) = Inr h)
        \<and> 2 \<le> length (shape s') \<and> drop 1 (shape s') = drop 1 (shape s)"
  then have ok: "2 \<le> length (shape s)"
      "layer_compatible st (cur_scope st @ scope_names scope_name @ [''affine1'', ''affine''])
         (prod_list (drop 1 (shape s))) 64"
      "layer_compatible st (cur_scope st @ scope_names scope_name @ [''affine2'', ''affine''])
         64 64"
      "layer_compatible st (cur_scope st @ scope_names scope_name @ [''affine3'', ''affine''])
         64 1"
    by (auto simp: classic_v_fst Let_def split: if_splits)
  from a have s': "2 \<le> length (shape s')" "drop (Suc 0) (shape s') = drop (Suc 0) (shape s)"
    by simp_all
  show "\<exists>h'. fst (ExampleClassicControlVFunction_v scope_name s'
                       (snd (ExampleClassicControlVFunction_v scope_name s st))) = Inr h'"
    using ok s'
    by (simp add: classic_v_snd [OF ok] classic_v_fst Let_def
        layer_compatible_register_layer_same)
qed

theorem classic_v_feed_forward_witness:
  "(\<exists>h. fst (ExampleClassicControlVFunction_v ''v'' (Input 0 [5, 3]) fresh_state) = Inr h
        \<and> layers h = three_layers ReLU 64 1 \<and> shape h = [5, 1] \<and> inputs_of h = [0])
   \<and> (2::nat) \<le> length (shape (Input 1 [7, 3]))
   \<and> drop 1 (shape (Input 1 [7, 3])) = drop 1 (shape (Input 0 [5, 3]))
   \<and> (\<exists>h'. fst (ExampleClassicControlVFunction_v ''v'' (Input 1 [7, 3])
                 (snd (ExampleClassicControlVFunction_v ''v'' (Input 0 [5, 3]) fresh_state)))
             = Inr h')"
proof -
  note t = classic_v_feed_forward [of fresh_state "''v''" "Input 0 [5, 3]" "Input 1 [7, 3]"]
  from t have 1: "\<exists>h. fst (ExampleClassicControlVFunction_v ''v'' (Input 0 [5, 3]) fresh_state) = Inr h
        \<and> layers h = three_layers ReLU 64 1 \<and> shape h = [5, 1] \<and> inputs_of h = [0]"
    by (simp add: Let_def)
  moreover have 2: "(2::nat) \<le> length (shape (Input 1 [7, 3]))
     \<and> drop 1 (shape (Input 1 [7, 3])) = drop 1 (shape (Input 0 [5, 3]))"
    by simp
  moreover from t 1 2 have "\<exists>h'. fst (ExampleClassicControlVFunction_v ''v'' (Input 1 [7, 3])
                 (snd (ExampleClassicControlVFunction_v ''v'' (Input 0 [5, 3]) fresh_state)))
             = Inr h'"
    by blast
  ultimately show ?thesis by blast
qed

text \<open>
  C9: the assertion of \<^verbatim>\<open>ExampleMujocoPolicy.pi\<close> never fails, for any input and state. The
  policy returns exactly when the input has a batch axis and a feature axis and the
  registry accepts its seven parameters, and then a Gaussian whose mean, the output of
  the last affine layer, and whose broadcast ln_var have the shape (s.shape[0],
  action_dim); for an input of shape (batch, state_dim) that is (batch, action_dim), and
  the only exception left is the library's ValueError for a parameter registered with
  another shape. After a pass that returned, a pass on any input with the same features
  returns too.
\<close>

theorem mujoco_pi_assertion_holds:
  "fst (ExampleMujocoPolicy_pi scope_name adim s st) \<noteq> Inl AssertionError
   \<and> (let c = cur_scope st @ scope_names scope_name;
          p1 = c @ [''linear1'', ''affine''];
          p2 = c @ [''linear2'', ''affine''];
          p3 = c @ [''linear3'', ''affine''];
          d = prod_list (drop 1 (shape s));
          h1 = affine_in st p1 s 100 (NormcInitializer (FloatLit ''1.0''));
          h2 = affine_in st p2 (F_tanh h1) 100 (NormcInitializer (FloatLit ''1.0''));
          m = affine_in st p3 (F_tanh h2) adim (NormcInitializer (FloatLit ''0.01''));
          ln_sigma = Param (c @ [''ln_sigma'']) [1, adim]
                       (init_at st (c @ [''ln_sigma'']) (ConstantInitializer (FloatLit ''0.0'')));
          lv = F_mul_scalar (Apply (BroadcastF [hd (shape s), adim]) [ln_sigma] 0
                               [hd (shape s), adim]) (FloatLit ''2.0'')
      in fst (ExampleMujocoPolicy_pi scope_name adim s st) =
           (if 2 \<le> length (shape s) \<and> layer_compatible st p1 d 100
                 \<and> layer_compatible st p2 100 100 \<and> layer_compatible st p3 100 adim
                 \<and> compatible st (c @ [''ln_sigma'']) [1, adim]
            then Inr (Gaussian m lv)
            else if length (shape s) < 2 \<and> layer_compatible st p1 d 100 then Inl RuntimeError
            else Inl ValueError)
         \<and> shape m = [hd (shape s), adim] \<and> shape lv = [hd (shape s), adim])
   \<and> (shape s = [batch, state_dim]
      \<longrightarrow> (case fst (ExampleMujocoPolicy_pi scope_name adim s st) of
             Inr g \<Rightarrow> shape (mean g) = [shape s ! 0, adim] \<and> shape (ln_var g) = [batch, adim]
           | Inl e \<Rightarrow> e = ValueError))
   \<and> ((\<exists>g. fst (ExampleMujocoPolicy_pi scope_name adim s st) = Inr g)
        \<and> 2 \<le> length (shape s') \<and> drop 1 (shape s') = drop 1 (shape s)
      \<longrightarrow> (\<exists>g'. fst (ExampleMujocoPolicy_pi scope_name adim s'
                       (snd (ExampleMujocoPolicy_pi scope_name adim s st))) = Inr g'))"
proof (intro conjI impI)
  show "fst (ExampleMujocoPolicy_pi scope_name adim s st) \<noteq> Inl AssertionError"
    by (simp add: mujoco_pi_fst Let_def)
  show "let c = cur_scope st @ scope_names scope_name;
          p1 = c @ [''linear1'', ''affine''];
          p2 = c @ [''linear2'', ''affine''];
          p3 = c @ [''linear3'', ''affine''];
          d = prod_list (drop 1 (shape s));
          h1 = affine_in st p1 s 100 (NormcInitializer (FloatLit ''1.0''));
          h2 = affine_in st p2 (F_tanh h1) 100 (NormcInitializer (FloatLit ''1.0''));
          m = affine_in st p3 (F_tanh h2) adim (NormcInitializer (FloatLit ''0.01''));
          ln_sigma = Param (c @ [''ln_sigma'']) [1, adim]
                       (init_at st (c @ [''ln_sigma'']) (ConstantInitializer (FloatLit ''0.0'')));
          lv = F_mul_scalar (Apply (BroadcastF [hd (shape s), adim]) [ln_sigma] 0
                               [hd (shape s), adim]) (FloatLit ''2.0'')
      in fst (ExampleMujocoPolicy_pi scope_name adim s st) =
           (if 2 \<le> length (shape s) \<and> layer_compatible st p1 d 100
                 \<and> layer_compatible st p2 100 100 \<and> layer_compatible st p3 100 adim
                 \<and> compatible st (c @ [''ln_sigma'']) [1, adim]
            then Inr (Gaussian m lv)
            else if length (shape s) < 2 \<and> layer_compatible st p1 d 100 then Inl RuntimeError
            else Inl ValueError)
         \<and> shape m = [hd (shape s), adim] \<and> shape lv = [hd (shape s), adim]"
    by (simp add: mujoco_pi_fst Let_def)
next
  assume "shape s = [batch, state_dim]"
  then show "case fst (ExampleMujocoPolicy_pi scope_name adim s st) of
             Inr g \<Rightarrow> shape (mean g) = [shape s ! 0, adim] \<and> shape (ln_var g) = [batch, adim]
           | Inl e \<Rightarrow> e = ValueError"
    by (simp add: mujoco_pi_fst Let_def)
next
  assume a: "(\<exists>g. fst (ExampleMujocoPolicy_pi scope_name adim s st) = Inr g)
        \<and> 2 \<le> length (shape s') \<and> drop 1 (shape s') = drop 1 (shape s)"
  then have ok: "2 \<le> length (shape s)"
      "layer_compatible st (cur_scope st @ scope_names scope_name @ [''linear1'', ''affine''])
         (prod_list (drop 1 (shape s))) 100"
      "layer_compatible st (cur_scope st @ scope_names scope_name @ [''linear2'', ''affine''])
         100 100"
      "layer_compatible st (cur_scope st @ scope_names scope_name @ [''linear3'', ''affine''])
         100 adim"
      "compatible st (cur_scope st @ scope_names scope_name @ [''ln_sigma'']) [1, adim]"
    by (auto simp: mujoco_pi_fst Let_def split: if_splits)
  from a have s': "2 \<le> length (shape s')" "drop (Suc 0) (shape s') = drop (Suc 0) (shape s)"
    by simp_all
  show "\<exists>g'. fst (ExampleMujocoPolicy_pi scope_name adim s'
                       (snd (ExampleMujocoPolicy_pi scope_name adim s st))) = Inr g'"
    using ok s'
    by (simp add: mujoco_pi_snd [OF ok] mujoco_pi_fst Let_def
        layer_compatible_register_layer_same layer_compatible_def [symmetric]
        compatible_register_same)
qed

theorem mujoco_pi_assertion_holds_witness:
  "shape (Input 0 [5, 3]) = [5, 3]
   \<and> (\<exists>g. fst (ExampleMujocoPolicy_pi ''pi'' 2 (Input 0 [5, 3]) fresh_state) = Inr g
         \<and> shape (mean g) = [5, 2] \<and> shape (ln_var g) = [5, 2])
   \<and> (2::nat) \<le> length (shape (Input 1 [7, 3]))
   \<and> drop 1 (shape (Input 1 [7, 3])) = drop 1 (shape (Input 0 [5, 3]))
   \<and> (\<exists>g'. fst (ExampleMujocoPolicy_pi ''pi'' 2 (Input 1 [7, 3])
                 (snd (ExampleMujocoPolicy_pi ''pi'' 2 (Input 0 [5, 3]) fresh_state)))
             = Inr g')"
proof -
  note t = mujoco_pi_assertion_holds
    [of "''pi''" 2 "Input 0 [5, 3]" fresh_state 5 3 "Input 1 [7, 3]"]
  from t have 1: "\<exists>g. fst (ExampleMujocoPolicy_pi ''pi'' 2 (Input 0 [5, 3]) fresh_state) = Inr g
         \<and> shape (mean g) = [5, 2] \<and> shape (ln_var g) = [5, 2]"
    by (simp add: Let_def)
  moreover have 2: "shape (Input 0 [5, 3]) = [5, 3] \<and> (2::nat) \<le> length (shape (Input 1 [7, 3]))
     \<and> drop 1 (shape (Input 1 [7, 3])) = drop 1 (shape (Input 0 [5, 3]))"
    by simp
  moreover from t 1 2 have "\<exists>g'. fst (ExampleMujocoPolicy_pi ''pi'' 2 (Input 1 [7, 3])
                 (snd (ExampleMujocoPolicy_pi ''pi'' 2 (Input 0 [5, 3]) fresh_state)))
             = Inr g'"
    by blast
  ultimately show ?thesis by blast
qed

text \<open>
  C4: for every input and every state, each of the six forward passes (v, pi, r) registers
  parameters only inside the scope that its \<^verbatim>\<open>scope_name\<close> names, and when it returns, the
  layers of its result and their widths are fixed: 64 with relu in the classic-control
  value function and policy, 64 with tanh in the classic discriminator, 100 with tanh in
  the mujoco networks; no width of a hidden layer comes from the input (the output width
  of the policies comes from the constructor's action dimension, the width of the
  concatenation from state and action). Each pass returns exactly when the shapes fit and
  the registry accepts its parameters.
\<close>

theorem networks_scoped_fixed_widths:
  "(creates_in_scope (scope_names scope_name) (ExampleClassicControlVFunction_v scope_name s) st
    \<and> (case fst (ExampleClassicControlVFunction_v scope_name s st) of
          Inr h \<Rightarrow> layers h = layers s @ three_layers ReLU 64 1
        | Inl e \<Rightarrow> e = ValueError \<or> e = RuntimeError)
    \<and> (\<exists>h. fst (ExampleClassicControlVFunction_v scope_name s st) = Inr h) =
         (let c = cur_scope st @ scope_names scope_name
          in 2 \<le> length (shape s)
             \<and> layer_compatible st (c @ [''affine1'', ''affine'']) (prod_list (drop 1 (shape s))) 64
             \<and> layer_compatible st (c @ [''affine2'', ''affine'']) 64 64
             \<and> layer_compatible st (c @ [''affine3'', ''affine'']) 64 1))
   \<and> (creates_in_scope (scope_names scope_name) (ExampleMujocoVFunction_v scope_name s) st
    \<and> (case fst (ExampleMujocoVFunction_v scope_name s st) of
          Inr h \<Rightarrow> layers h = layers s @ three_layers Tanh 100 1
        | Inl e \<Rightarrow> e = ValueError \<or> e = RuntimeError)
    \<and> (\<exists>h. fst (ExampleMujocoVFunction_v scope_name s st) = Inr h) =
         (let c = cur_scope st @ scope_names scope_name
          in 2 \<le> length (shape s)
             \<and> layer_compatible st (c @ [''linear1'', ''affine'']) (prod_list (drop 1 (shape s))) 100
             \<and> layer_compatible st (c @ [''linear2'', ''affine'']) 100 100
             \<and> layer_compatible st (c @ [''linear3'', ''affine'']) 100 1))
   \<and> (creates_in_scope (scope_names scope_name)
         (ExampleClassicControlPolicy_pi scope_name adim s) st
    \<and> (case fst (ExampleClassicControlPolicy_pi scope_name adim s st) of
          Inr g \<Rightarrow> layers (mean g) = layers s @ three_layers ReLU 64 (adim * 2)
                     @ [(ReshapeF [- 1, 2, int adim], adim), (SplitF 1, adim)]
        | Inl e \<Rightarrow> e = ValueError \<or> e = RuntimeError)
    \<and> (\<exists>g. fst (ExampleClassicControlPolicy_pi scope_name adim s st) = Inr g) =
         (let c = cur_scope st @ scope_names scope_name
          in 2 \<le> length (shape s) \<and> 0 < adim
             \<and> layer_compatible st (c @ [''affine1'', ''affine'']) (prod_list (drop 1 (shape s))) 64
             \<and> layer_compatible st (c @ [''affine2'', ''affine'']) 64 64
             \<and> layer_compatible st (c @ [''affine3'', ''affine'']) 64 (adim * 2)))
   \<and> (creates_in_scope (scope_names scope_name) (ExampleMujocoPolicy_pi scope_name adim s) st
    \<and> (case fst (ExampleMujocoPolicy_pi scope_name adim s st) of
          Inr g \<Rightarrow> layers (mean g) = layers s @ three_layers Tanh 100 adim
        | Inl e \<Rightarrow> e = ValueError \<or> e = RuntimeError)
    \<and> (\<exists>g. fst (ExampleMujocoPolicy_pi scope_name adim s st) = Inr g) =
         (let c = cur_scope st @ scope_names scope_name
          in 2 \<le> length (shape s)
             \<and> layer_compatible st (c @ [''linear1'', ''affine'']) (prod_list (drop 1 (shape s))) 100
             \<and> layer_compatible st (c @ [''linear2'', ''affine'']) 100 100
             \<and> layer_compatible st (c @ [''linear3'', ''affine'']) 100 adim
             \<and> compatible st (c @ [''ln_sigma'']) [1, adim]))
   \<and> (creates_in_scope (scope_names scope_name)
         (ExampleClassicDiscriminator_r scope_name s a s_next) st
    \<and> (case fst (ExampleClassicDiscriminator_r scope_name s a s_next st) of
          Inr h \<Rightarrow> (\<exists>h0. F_concatenate s a 1 = Inr h0
                     \<and> layers h = layers s @ (ConcatenateF 1, last (shape h0))
                          # three_layers Tanh 64 1)
        | Inl e \<Rightarrow> e = ValueError \<or> e = RuntimeError)
    \<and> (\<exists>h. fst (ExampleClassicDiscriminator_r scope_name s a s_next st) = Inr h) =
         (let c = cur_scope st @ scope_names scope_name
          in \<exists>h0. F_concatenate s a 1 = Inr h0
             \<and> layer_compatible st (c @ [''linear1'', ''affine'']) (prod_list (drop 1 (shape h0))) 64
             \<and> layer_compatible st (c @ [''linear2'', ''affine'']) 64 64
             \<and> layer_compatible st (c @ [''linear3'', ''affine'']) 64 1))
   \<and> (creates_in_scope (scope_names scope_name)
         (ExampleMujocoDiscriminator_r scope_name s a s_next) st
    \<and> (case fst (ExampleMujocoDiscriminator_r scope_name s a s_next st) of
          Inr h \<Rightarrow> (\<exists>h0. F_concatenate s a 1 = Inr h0
                     \<and> layers h = layers s @ (ConcatenateF 1, last (shape h0))
                          # three_layers Tanh 100 1)
        | Inl e \<Rightarrow> e = ValueError \<or> e = RuntimeError)
    \<and> (\<exists>h. fst (ExampleMujocoDiscriminator_r scope_name s a s_next st) = Inr h) =
         (let c = cur_scope st @ scope_names scope_name
          in \<exists>h0. F_concatenate s a 1 = Inr h0
             \<and> layer_compatible st (c @ [''linear1'', ''affine'']) (prod_list (drop 1 (shape h0))) 100
             \<and> layer_compatible st (c @ [''linear2'', ''affine'']) 100 100
             \<and> layer_compatible st (c @ [''linear3'', ''affine'']) 100 1))"
proof -
  have cv: "creates_in_scope (scope_names scope_name) (ExampleClassicControlVFunction_v scope_name s) st
    \<and> (case fst (ExampleClassicControlVFunction_v scope_name s st) of
          Inr h \<Rightarrow> layers h = layers s @ three_layers ReLU 64 1
        | Inl e \<Rightarrow> e = ValueError \<or> e = RuntimeError)
    \<and> (\<exists>h. fst (ExampleClassicControlVFunction_v scope_name s st) = Inr h) =
         (let c = cur_scope st @ scope_names scope_name
          in 2 \<le> length (shape s)
             \<and> layer_compatible st (c @ [''affine1'', ''affine'']) (prod_list (drop 1 (shape s))) 64
             \<and> layer_compatible st (c @ [''affine2'', ''affine'']) 64 64
             \<and> layer_compatible st (c @ [''affine3'', ''affine'']) 64 1)"
    by (auto simp: classic_v_scoped classic_v_fst Let_def three_layers_def)
  have mv: "creates_in_scope (scope_names scope_name) (ExampleMujocoVFunction_v scope_name s) st
    \<and> (case fst (ExampleMujocoVFunction_v scope_name s st) of
          Inr h \<Rightarrow> layers h = layers s @ three_layers Tanh 100 1
        | Inl e \<Rightarrow> e = ValueError \<or> e = RuntimeError)
    \<and> (\<exists>h. fst (ExampleMujocoVFunction_v scope_name s st) = Inr h) =
         (let c = cur_scope st @ scope_names scope_name
          in 2 \<le> length (shape s)
             \<and> layer_compatible st (c @ [''linear1'', ''affine'']) (prod_list (drop 1 (shape s))) 100
             \<and> layer_compatible st (c @ [''linear2'', ''affine'']) 100 100
             \<and> layer_compatible st (c @ [''linear3'', ''affine'']) 100 1)"
    by (auto simp: mujoco_v_scoped mujoco_v_fst Let_def three_layers_def)
  have cp: "creates_in_scope (scope_names scope_name)
         (ExampleClassicControlPolicy_pi scope_name adim s) st
    \<and> (case fst (ExampleClassicControlPolicy_pi scope_name adim s st) of
          Inr g \<Rightarrow> layers (mean g) = layers s @ three_layers ReLU 64 (adim * 2)
                     @ [(ReshapeF [- 1, 2, int adim], adim), (SplitF 1, adim)]
        | Inl e \<Rightarrow> e = ValueError \<or> e = RuntimeError)
    \<and> (\<exists>g. fst (ExampleClassicControlPolicy_pi scope_name adim s st) = Inr g) =
         (let c = cur_scope st @ scope_names scope_name
          in 2 \<le> length (shape s) \<and> 0 < adim
             \<and> layer_compatible st (c @ [''affine1'', ''affine'']) (prod_list (drop 1 (shape s))) 64
             \<and> layer_compatible st (c @ [''affine2'', ''affine'']) 64 64
             \<and> layer_compatible st (c @ [''affine3'', ''affine'']) 64 (adim * 2))"
    by (auto simp: classic_pi_scoped classic_pi_fst Let_def three_layers_def)
  have mp: "creates_in_scope (scope_names scope_name) (ExampleMujocoPolicy_pi scope_name adim s) st
    \<and> (case fst (ExampleMujocoPolicy_pi scope_name adim s st) of
          Inr g \<Rightarrow> layers (mean g) = layers s @ three_layers Tanh 100 adim
        | Inl e \<Rightarrow> e = ValueError \<or> e = RuntimeError)
    \<and> (\<exists>g. fst (ExampleMujocoPolicy_pi scope_name adim s st) = Inr g) =
         (let c = cur_scope st @ scope_names scope_name
          in 2 \<le> length (shape s)
             \<and> layer_compatible st (c @ [''linear1'', ''affine'']) (prod_list (drop 1 (shape s))) 100
             \<and> layer_compatible st (c @ [''linear2'', ''affine'']) 100 100
             \<and> layer_compatible st (c @ [''linear3'', ''affine'']) 100 adim
             \<and> compatible st (c @ [''ln_sigma'']) [1, adim])"
    by (auto simp: mujoco_pi_scoped mujoco_pi_fst Let_def three_layers_def)
  have layers_concat: "layers h0 = layers s @ [(ConcatenateF 1, last (shape h0))]"
    if "F_concatenate s a 1 = Inr h0" for h0
    using that by (auto simp: F_concatenate_def split: if_splits)
  have cr: "creates_in_scope (scope_names scope_name)
         (ExampleClassicDiscriminator_r scope_name s a s_next) st
    \<and> (case fst (ExampleClassicDiscriminator_r scope_name s a s_next st) of
          Inr h \<Rightarrow> (\<exists>h0. F_concatenate s a 1 = Inr h0
                     \<and> layers h = layers s @ (ConcatenateF 1, last (shape h0))
                          # three_layers Tanh 64 1)
        | Inl e \<Rightarrow> e = ValueError \<or> e = RuntimeError)
    \<and> (\<exists>h. fst (ExampleClassicDiscriminator_r scope_name s a s_next st) = Inr h) =
         (let c = cur_scope st @ scope_names scope_name
          in \<exists>h0. F_concatenate s a 1 = Inr h0
             \<and> layer_compatible st (c @ [''linear1'', ''affine'']) (prod_list (drop 1 (shape h0))) 64
             \<and> layer_compatible st (c @ [''linear2'', ''affine'']) 64 64
             \<and> layer_compatible st (c @ [''linear3'', ''affine'']) 64 1)"
    by (cases "F_concatenate s a 1")
       (auto simp: classic_r_scoped classic_r_fst Let_def three_layers_def layers_concat)
  have mr: "creates_in_scope (scope_names scope_name)
         (ExampleMujocoDiscriminator_r scope_name s a s_next) st
    \<and> (case fst (ExampleMujocoDiscriminator_r scope_name s a s_next st) of
          Inr h \<Rightarrow> (\<exists>h0. F_concatenate s a 1 = Inr h0
                     \<and> layers h = layers s @ (ConcatenateF 1, last (shape h0))
                          # three_layers Tanh 100 1)
        | Inl e \<Rightarrow> e = ValueError \<or> e = RuntimeError)
    \<and> (\<exists>h. fst (ExampleMujocoDiscriminator_r scope_name s a s_next st) = Inr h) =
         (let c = cur_scope st @ scope_names scope_name
          in \<exists>h0. F_concatenate s a 1 = Inr h0
             \<and> layer_compatible st (c @ [''linear1'', ''affine'']) (prod_list (drop 1 (shape h0))) 100
             \<and> layer_compatible st (c @ [''linear2'', ''affine'']) 100 100
             \<and> layer_compatible st (c @ [''linear3'', ''affine'']) 100 1)"
    by (cases "F_concatenate s a 1")
       (auto simp: mujoco_r_scoped mujoco_r_fst Let_def three_layers_def layers_concat)
  from cv mv cp mp cr mr show ?thesis by blast
qed

theorem networks_scoped_fixed_widths_witness:
  "(\<exists>h. fst (ExampleClassicControlVFunction_v ''net'' (Input 0 [5, 3]) fresh_state) = Inr h
        \<and> layers h = three_layers ReLU 64 1)
   \<and> (\<exists>h. fst (ExampleMujocoVFunction_v ''net'' (Input 0 [5, 3]) fresh_state) = Inr h
        \<and> layers h = three_layers Tanh 100 1)
   \<and> (\<exists>g. fst (ExampleClassicControlPolicy_pi ''net'' 2 (Input 0 [5, 3]) fresh_state) = Inr g
        \<and> layers (mean g) = three_layers ReLU 64 4 @ [(ReshapeF [- 1, 2, 2], 2), (SplitF 1, 2)])
   \<and> (\<exists>g. fst (ExampleMujocoPolicy_pi ''net'' 2 (Input 0 [5, 3]) fresh_state) = Inr g
        \<and> layers (mean g) = three_layers Tanh 100 2)
   \<and> (\<exists>h. fst (ExampleClassicDiscriminator_r ''net'' (Input 0 [5, 3]) (Input 1 [5, 1])
                  (Input 2 [5, 3]) fresh_state) = Inr h
        \<and> layers h = (ConcatenateF 1, 4) # three_layers Tanh 64 1)
   \<and> (\<exists>h. fst (ExampleMujocoDiscriminator_r ''net'' (Input 0 [5, 3]) (Input 1 [5, 1])
                  (Input 2 [5, 3]) fresh_state) = Inr h
        \<and> layers h = (ConcatenateF 1, 4) # three_layers Tanh 100 1)"
  using networks_scoped_fixed_widths
    [of "''net''" "Input 0 [5, 3]" fresh_state 2 "Input 1 [5, 1]" "Input 2 [5, 3]"]
  by (auto simp: Let_def F_concatenate_def split: sum.splits)

end
